theory Spec2Isabelle
  imports Main "HOL-Library.Word"
begin

section \<open>Data model (model/model.go)\<close>

text \<open>
  Go's \<^verbatim>\<open>int\<close> is a 64-bit signed integer on the platforms the service runs on; a field
  of that type is a 64-bit word, read as a signed number with \<open>sint\<close>.
\<close>

type_synonym go_int = "64 word"

record AddressDetails =
  FullName :: string
  Phone :: string
  ZipCode :: string
  City :: string
  Street :: string
  Region :: string
  Email :: string

record PaymentDetails =
  TransactionID :: string
  RequestID :: string
  Currency :: string
  Provider :: string
  Amount :: go_int
  PaymentDate :: go_int
  Bank :: string
  DeliveryCost :: go_int
  TotalGoods :: go_int
  CustomFee :: go_int

record ProductItem =
  ChartID :: go_int
  TrackingNum :: string
  Price :: go_int
  RID :: string
  Name :: string
  Discount :: go_int
  Size :: string
  TotalPrice :: go_int
  ProductID :: go_int
  Brand :: string
  Status :: go_int

text \<open>
  \<^verbatim>\<open>type ISO8601Time time.Time\<close>. A \<^verbatim>\<open>time.Time\<close> is represented by what its accessors
  \<^verbatim>\<open>Date()\<close>, \<^verbatim>\<open>Clock()\<close>, \<^verbatim>\<open>Nanosecond()\<close> and \<^verbatim>\<open>Zone()\<close> return: the calendar
  fields in the value's own zone, the nanoseconds within the second, and the zone's offset
  in seconds east of UTC. Two values are equal when they denote the same instant with the
  same offset.
\<close>

record ISO8601Time =
  Year :: int
  Month :: nat
  Day :: nat
  Hour :: nat
  Minute :: nat
  Second :: nat
  Nanosecond :: nat
  ZoneOffset :: int

text \<open>
  \<^verbatim>\<open>OrderDetails\<close>. A nil slice and an empty slice of products are both the empty list.
\<close>

record OrderDetails =
  OrderID :: string
  TrackingNumber :: string
  EntryPoint :: string
  Address :: AddressDetails
  Payment :: PaymentDetails
  Products :: "ProductItem list"
  Locale :: string
  Signature :: string
  CustomerID :: string
  DeliveryService :: string
  ShardKey :: string
  SMID :: go_int
  CreationTimestamp :: ISO8601Time
  OutOfShard :: string

section \<open>Durable store (data\_base/data\_base.go, schema of scripts/init.sh)\<close>

text \<open>
  The tables of \<^verbatim>\<open>init.sh\<close>. \<^verbatim>\<open>delivery.id\<close> is a \<^verbatim>\<open>SERIAL\<close> column: its values
  come from a sequence, which PostgreSQL advances outside any transaction, so the
  sequence is kept beside the tables and not among them.
\<close>

record order_row =
  r_order_uid :: string
  r_track_number :: string
  r_entry :: string
  r_delivery_id :: nat
  r_payment_id :: string
  r_locale :: string
  r_internal_signature :: string
  r_customer_id :: string
  r_delivery_service :: string
  r_shardkey :: string
  r_sm_id :: go_int
  r_date_created :: ISO8601Time
  r_oof_shard :: string

record tables =
  delivery :: "(nat \<times> AddressDetails) list"
  payment :: "PaymentDetails list"
  items :: "ProductItem list"
  orders :: "order_row list"
  order_item_conn :: "(string \<times> go_int) list"

record dbService =
  rows :: tables
  delivery_id_seq :: nat

text \<open>
  Every statement sent to the pool or to a transaction can fail for a reason that the
  tables do not determine (lost connection, cancelled context, a value outside the range
  of its column). Such failures are an input of the model: \<open>io st\<close> holds when the
  statement \<open>st\<close> of the call fails that way. Violations of the primary keys of
  \<^verbatim>\<open>init.sh\<close> are computed from the tables. \<open>NextItem i\<close> and \<open>NextID i\<close> are the
  calls of \<^verbatim>\<open>rows.Next()\<close> that stop at row \<open>i\<close> because reading the result failed.
\<close>

datatype db_step =
    TxBegin | InsertDelivery | InsertPayment | InsertOrder | InsertItem nat | TxCommit
  | SelectOrder | SelectDelivery | SelectPayment | SelectItems | NextItem nat | ScanItem nat
  | SelectRecentIDs | NextID nat | ScanID nat

type_synonym faults = "db_step \<Rightarrow> bool"

datatype db_error = ErrNoRows | UniqueViolation string | IOError db_step

subsection \<open>dbService.AddOrder\<close>

definition insert_delivery ::
    "faults \<Rightarrow> nat \<Rightarrow> tables \<Rightarrow> AddressDetails \<Rightarrow> db_error + tables" where
  "insert_delivery io deliveryID tx a =
     (if io InsertDelivery then Inl (IOError InsertDelivery)
      else if deliveryID \<in> set (map fst (delivery tx)) then Inl (UniqueViolation ''delivery'')
      else Inr (tx\<lparr>delivery := delivery tx @ [(deliveryID, a)]\<rparr>))"

definition insert_payment :: "faults \<Rightarrow> tables \<Rightarrow> PaymentDetails \<Rightarrow> db_error + tables" where
  "insert_payment io tx p =
     (if io InsertPayment then Inl (IOError InsertPayment)
      else if TransactionID p \<in> set (map TransactionID (payment tx))
        then Inl (UniqueViolation ''payment'')
      else Inr (tx\<lparr>payment := payment tx @ [p]\<rparr>))"

text \<open>
  The column \<^verbatim>\<open>date_created\<close> is a \<^verbatim>\<open>TIMESTAMP\<close>: it holds the calendar fields of the
  \<^verbatim>\<open>time.Time\<close> that is passed, to the microsecond, and no zone offset; it is read as a
  time in UTC.
\<close>

definition timestamp_column :: "ISO8601Time \<Rightarrow> ISO8601Time" where
  "timestamp_column t = t\<lparr>Nanosecond := Nanosecond t div 1000 * 1000, ZoneOffset := 0\<rparr>"

definition order_row_of :: "OrderDetails \<Rightarrow> nat \<Rightarrow> order_row" where
  "order_row_of order deliveryID =
     \<lparr>r_order_uid = OrderID order, r_track_number = TrackingNumber order,
      r_entry = EntryPoint order, r_delivery_id = deliveryID,
      r_payment_id = TransactionID (Payment order), r_locale = Locale order,
      r_internal_signature = Signature order, r_customer_id = CustomerID order,
      r_delivery_service = DeliveryService order, r_shardkey = ShardKey order,
      r_sm_id = SMID order, r_date_created = timestamp_column (CreationTimestamp order),
      r_oof_shard = OutOfShard order\<rparr>"

definition insert_order ::
    "faults \<Rightarrow> tables \<Rightarrow> OrderDetails \<Rightarrow> nat \<Rightarrow> db_error + tables" where
  "insert_order io tx order deliveryID =
     (if io InsertOrder then Inl (IOError InsertOrder)
      else if OrderID order \<in> set (map r_order_uid (orders tx))
        then Inl (UniqueViolation ''orders'')
      else Inr (tx\<lparr>orders := orders tx @ [order_row_of order deliveryID]\<rparr>))"

text \<open>The loop \<^verbatim>\<open>for _, item := range order.Products\<close>; \<open>i\<close> counts the iterations.\<close>

fun insert_items :: "faults \<Rightarrow> nat \<Rightarrow> tables \<Rightarrow> ProductItem list \<Rightarrow> db_error + tables" where
  "insert_items io i tx [] = Inr tx"
| "insert_items io i tx (item # rest) =
     (if io (InsertItem i) then Inl (IOError (InsertItem i))
      else if ChartID item \<in> set (map ChartID (items tx)) then Inl (UniqueViolation ''items'')
      else insert_items io (Suc i) (tx\<lparr>items := items tx @ [item]\<rparr>) rest)"

text \<open>
  The statements between \<^verbatim>\<open>Begin\<close> and \<^verbatim>\<open>Commit\<close> work on the transaction's own view
  \<open>tx\<close> of the tables. The foreign keys of \<^verbatim>\<open>orders\<close> point at the two rows inserted
  just before in the same transaction.
\<close>

definition tx_body :: "faults \<Rightarrow> nat \<Rightarrow> tables \<Rightarrow> OrderDetails \<Rightarrow> db_error + tables" where
  "tx_body io deliveryID tx order =
     (case insert_delivery io deliveryID tx (Address order) of
        Inl e \<Rightarrow> Inl e
      | Inr tx1 \<Rightarrow>
     (case insert_payment io tx1 (Payment order) of
        Inl e \<Rightarrow> Inl e
      | Inr tx2 \<Rightarrow>
     (case insert_order io tx2 order deliveryID of
        Inl e \<Rightarrow> Inl e
      | Inr tx3 \<Rightarrow> insert_items io 0 tx3 (Products order))))"

text \<open>
  \<^verbatim>\<open>defer tx.Rollback(ctx)\<close> runs on every return: before a commit it discards the
  transaction's view, after a successful commit it does nothing. The sequence keeps the
  value it handed out once the first insert has run.
\<close>

definition dbAddOrder :: "faults \<Rightarrow> dbService \<Rightarrow> OrderDetails \<Rightarrow> dbService \<times> (db_error + unit)" where
  "dbAddOrder io s order =
     (if io TxBegin then (s, Inl (IOError TxBegin))
      else
        let deliveryID = Suc (delivery_id_seq s);
            s1 = (if io InsertDelivery then s else s\<lparr>delivery_id_seq := deliveryID\<rparr>)
        in case tx_body io deliveryID (rows s) order of
             Inl e \<Rightarrow> (s1, Inl e)
           | Inr tx \<Rightarrow>
               if io TxCommit then (s1, Inl (IOError TxCommit))
               else (s1\<lparr>rows := tx\<rparr>, Inr ()))"

subsection \<open>dbService.GetOrder\<close>

text \<open>
  The loop \<^verbatim>\<open>for rows.Next()\<close> over the selected items; a failing \<^verbatim>\<open>Scan\<close> returns.
  When \<^verbatim>\<open>rows.Next()\<close> stops on an error the loop ends as it does after the last row:
  \<^verbatim>\<open>rows.Err()\<close> is not consulted, and the items read so far are the result.
\<close>

fun scan_items :: "faults \<Rightarrow> nat \<Rightarrow> ProductItem list \<Rightarrow> db_error + ProductItem list" where
  "scan_items io i [] = Inr []"
| "scan_items io i (item # rest) =
     (if io (NextItem i) then Inr []
      else if io (ScanItem i) then Inl (IOError (ScanItem i))
      else case scan_items io (Suc i) rest of
             Inl e \<Rightarrow> Inl e
           | Inr its \<Rightarrow> Inr (item # its))"

definition select_items :: "tables \<Rightarrow> string \<Rightarrow> ProductItem list" where
  "select_items t uid =
     filter (\<lambda>it. ChartID it \<in> set (map snd (filter (\<lambda>c. fst c = uid) (order_item_conn t))))
       (items t)"

definition dbGetOrder :: "faults \<Rightarrow> dbService \<Rightarrow> string \<Rightarrow> db_error + OrderDetails" where
  "dbGetOrder io s orderUID =
     (if io SelectOrder then Inl (IOError SelectOrder)
      else case find (\<lambda>r. r_order_uid r = orderUID) (orders (rows s)) of
        None \<Rightarrow> Inl ErrNoRows
      | Some orderRecord \<Rightarrow>
     (if io SelectDelivery then Inl (IOError SelectDelivery)
      else case map_of (delivery (rows s)) (r_delivery_id orderRecord) of
        None \<Rightarrow> Inl ErrNoRows
      | Some deliveryRecord \<Rightarrow>
     (if io SelectPayment then Inl (IOError SelectPayment)
      else case find (\<lambda>p. TransactionID p = r_payment_id orderRecord) (payment (rows s)) of
        None \<Rightarrow> Inl ErrNoRows
      | Some paymentRecord \<Rightarrow>
     (if io SelectItems then Inl (IOError SelectItems)
      else case scan_items io 0 (select_items (rows s) (r_order_uid orderRecord)) of
        Inl e \<Rightarrow> Inl e
      | Inr its \<Rightarrow>
          Inr \<lparr>OrderID = r_order_uid orderRecord,
               TrackingNumber = r_track_number orderRecord,
               EntryPoint = r_entry orderRecord,
               Address = deliveryRecord,
               Payment = paymentRecord,
               Products = its,
               Locale = r_locale orderRecord,
               Signature = r_internal_signature orderRecord,
               CustomerID = r_customer_id orderRecord,
               DeliveryService = r_delivery_service orderRecord,
               ShardKey = r_shardkey orderRecord,
               SMID = r_sm_id orderRecord,
               CreationTimestamp = r_date_created orderRecord,
               OutOfShard = r_oof_shard orderRecord\<rparr>))))"

subsection \<open>dbService.GetRecentOrderIDs\<close>

text \<open>
  \<^verbatim>\<open>ORDER BY date_created DESC LIMIT $1\<close>: the rows are sorted on the stored calendar
  fields, newest first. \<open>timestamp_key\<close> is monotone in the lexicographic order of the
  fields of a calendar date. As in \<^verbatim>\<open>GetOrder\<close>, a \<^verbatim>\<open>rows.Next()\<close> that stops on an error
  ends the loop and the identifiers read so far are returned without an error.
\<close>

definition timestamp_key :: "ISO8601Time \<Rightarrow> int" where
  "timestamp_key t =
     (((((Year t * 12 + int (Month t)) * 31 + int (Day t)) * 24 + int (Hour t)) * 60
        + int (Minute t)) * 60 + int (Second t)) * 1000000000 + int (Nanosecond t)"

fun scan_ids :: "faults \<Rightarrow> nat \<Rightarrow> string list \<Rightarrow> db_error + string list" where
  "scan_ids io i [] = Inr []"
| "scan_ids io i (x # rest) =
     (if io (NextID i) then Inr []
      else if io (ScanID i) then Inl (IOError (ScanID i))
      else case scan_ids io (Suc i) rest of
             Inl e \<Rightarrow> Inl e
           | Inr ids \<Rightarrow> Inr (x # ids))"

definition dbGetRecentOrderIDs :: "faults \<Rightarrow> dbService \<Rightarrow> nat \<Rightarrow> db_error + string list" where
  "dbGetRecentOrderIDs io s limit =
     (if io SelectRecentIDs then Inl (IOError SelectRecentIDs)
      else scan_ids io 0
             (map r_order_uid
                (take limit (sort_key (\<lambda>r. - timestamp_key (r_date_created r)) (orders (rows s))))))"

section \<open>Cache layer (caching/cache.go)\<close>

subsection \<open>The bounded cache\<close>

text \<open>
  The cache is the third-party ristretto structure; the service calls its \<^verbatim>\<open>Set\<close>,
  \<^verbatim>\<open>Wait\<close> and \<^verbatim>\<open>Get\<close>. Its contents after a \<^verbatim>\<open>Wait\<close> are a finite map from keys
  to orders (the service stores nothing but \<^verbatim>\<open>*model.OrderDetails\<close> in it, so the type
  assertion of \<^verbatim>\<open>getFromCache\<close> always succeeds). Whether a \<^verbatim>\<open>Set\<close> is taken, and
  which entries are evicted to make room, is the library's decision and an input of the
  model. Every \<^verbatim>\<open>Set\<close> of the service is followed by \<^verbatim>\<open>Wait\<close>, the settle barrier
  after which a taken entry is visible: \<open>cache_Set\<close> is the pair of calls. The boolean
  that \<^verbatim>\<open>Set\<close> returns only guards a debug log line and is left out, as is all logging.
\<close>

type_synonym ristretto = "string \<rightharpoonup> OrderDetails"

datatype admission = Dropped | Stored "string list"

definition cache_Set :: "admission \<Rightarrow> ristretto \<Rightarrow> string \<Rightarrow> OrderDetails \<Rightarrow> ristretto" where
  "cache_Set a c key v =
     (case a of
        Dropped \<Rightarrow> c
      | Stored evicted \<Rightarrow> (\<lambda>k. if k \<in> set evicted then None else c k)(key \<mapsto> v))"

definition cache_Get :: "ristretto \<Rightarrow> string \<Rightarrow> OrderDetails option" where
  "cache_Get c key = c key"

subsection \<open>The service\<close>

text \<open>
  \<open>db_calls\<close> is not a field of the Go struct: it records, in order, the calls the
  service makes on its \<^verbatim>\<open>DBService\<close>, as an instrumented store would.
\<close>

datatype db_call = CallAddOrder string | CallGetOrder string | CallGetRecentOrderIDs nat

record cacheService =
  cache :: ristretto
  db :: dbService
  maxSize :: nat
  db_calls :: "db_call list"

definition getFromCache :: "cacheService \<Rightarrow> string \<Rightarrow> OrderDetails option" where
  "getFromCache s orderUID = cache_Get (cache s) orderUID"

definition addToCache :: "admission \<Rightarrow> cacheService \<Rightarrow> string \<Rightarrow> OrderDetails \<Rightarrow> cacheService" where
  "addToCache a s orderUID order = s\<lparr>cache := cache_Set a (cache s) orderUID order\<rparr>"

definition AddOrder ::
    "admission \<Rightarrow> faults \<Rightarrow> cacheService \<Rightarrow> OrderDetails \<Rightarrow> cacheService \<times> (db_error + unit)" where
  "AddOrder a io s order =
     (let s1 = s\<lparr>cache := cache_Set a (cache s) (OrderID order) order\<rparr>;
          (d, r) = dbAddOrder io (db s1) order;
          s2 = s1\<lparr>db := d, db_calls := db_calls s1 @ [CallAddOrder (OrderID order)]\<rparr>
      in case r of
           Inl err \<Rightarrow> (s2, Inl err)
         | Inr u \<Rightarrow> (s2, Inr ()))"

definition GetOrder ::
    "admission \<Rightarrow> faults \<Rightarrow> cacheService \<Rightarrow> string \<Rightarrow> cacheService \<times> (db_error + OrderDetails)" where
  "GetOrder a io s orderUID =
     (case getFromCache s orderUID of
        Some order \<Rightarrow> (s, Inr order)
      | None \<Rightarrow>
          let s1 = s\<lparr>db_calls := db_calls s @ [CallGetOrder orderUID]\<rparr>
          in case dbGetOrder io (db s1) orderUID of
               Inl err \<Rightarrow> (s1, Inl err)
             | Inr order \<Rightarrow> (addToCache a s1 orderUID order, Inr order))"

text \<open>
  \<^verbatim>\<open>loadCache\<close> starts one goroutine per identifier and waits for all of them
  (\<^verbatim>\<open>wg.Wait()\<close>) before it returns. The goroutines are run here one after the other in
  the order of the list; each has its own store faults \<open>io id\<close> and its own admission
  \<open>adm id\<close>.
\<close>

fun warm ::
    "(string \<Rightarrow> admission) \<Rightarrow> (string \<Rightarrow> faults) \<Rightarrow> cacheService \<Rightarrow> string list \<Rightarrow> cacheService" where
  "warm adm io s [] = s"
| "warm adm io s (i # ids) =
     (let s1 = s\<lparr>db_calls := db_calls s @ [CallGetOrder i]\<rparr>
      in case dbGetOrder (io i) (db s1) i of
           Inl err \<Rightarrow> warm adm io s1 ids
         | Inr order \<Rightarrow> warm adm io (s1\<lparr>cache := cache_Set (adm i) (cache s1) i order\<rparr>) ids)"

definition loadCache ::
    "(string \<Rightarrow> admission) \<Rightarrow> faults \<Rightarrow> (string \<Rightarrow> faults) \<Rightarrow> cacheService
      \<Rightarrow> cacheService \<times> (db_error + unit)" where
  "loadCache adm io0 io s =
     (let s1 = s\<lparr>db_calls := db_calls s @ [CallGetRecentOrderIDs (maxSize s)]\<rparr>
      in case dbGetRecentOrderIDs io0 (db s1) (maxSize s1) of
           Inl err \<Rightarrow> (s1, Inl err)
         | Inr orderIDs \<Rightarrow> (warm adm io s1 orderIDs, Inr ()))"

text \<open>
  \<^verbatim>\<open>ristretto.NewCache\<close> can refuse its configuration; \<open>cfg\<close> is its answer (\<open>None\<close>
  when the empty cache is built).
\<close>

datatype construction_error = CacheConfigError string | WarmUpError db_error

definition NewCacheService ::
    "string option \<Rightarrow> (string \<Rightarrow> admission) \<Rightarrow> faults \<Rightarrow> (string \<Rightarrow> faults) \<Rightarrow> nat \<Rightarrow> dbService
      \<Rightarrow> construction_error + cacheService" where
  "NewCacheService cfg adm io0 io cacheSize d =
     (case cfg of
        Some err \<Rightarrow> Inl (CacheConfigError err)
      | None \<Rightarrow>
          let service = \<lparr>cache = Map.empty, db = d, maxSize = cacheSize, db_calls = []\<rparr>
          in case loadCache adm io0 io service of
               (s, Inl err) \<Rightarrow> Inl (WarmUpError err)
             | (s, Inr u) \<Rightarrow> Inr s)"

section \<open>Timestamps (model/model.go, Go's time package)\<close>

subsection \<open>Decimal fields\<close>

definition isDigit :: "char \<Rightarrow> bool" where
  "isDigit c = (48 \<le> (of_char c :: nat) \<and> (of_char c :: nat) \<le> 57)"

definition digit_val :: "char \<Rightarrow> nat" where
  "digit_val c = of_char c - 48"

definition digit_char :: "nat \<Rightarrow> char" where
  "digit_char d = char_of (48 + d)"

fun decimal :: "nat \<Rightarrow> string" where
  "decimal n = (if n < 10 then [digit_char n] else decimal (n div 10) @ [digit_char (n mod 10)])"

declare decimal.simps [simp del]

text \<open>\<^verbatim>\<open>appendInt(b, x, width)\<close>: the decimal form of \<open>x\<close>, zero-padded to \<open>width\<close>.\<close>

definition appendInt :: "int \<Rightarrow> nat \<Rightarrow> string" where
  "appendInt x width =
     (if x < 0
      then CHR ''-'' # replicate (width - length (decimal (nat (- x)))) CHR ''0'' @ decimal (nat (- x))
      else replicate (width - length (decimal (nat x))) CHR ''0'' @ decimal (nat x))"

text \<open>\<^verbatim>\<open>atoi\<close> on a run of digits.\<close>

definition atoi :: "string \<Rightarrow> nat" where
  "atoi s = foldl (\<lambda>x c. x * 10 + digit_val c) 0 s"

text \<open>
  The helper \<^verbatim>\<open>parseUint\<close> of \<^verbatim>\<open>parseRFC3339\<close>: a run of digits whose value lies in
  \<open>[lo, hi]\<close>. \<open>None\<close> stands for the flag \<^verbatim>\<open>ok = false\<close>.
\<close>

definition parseUint :: "string \<Rightarrow> nat \<Rightarrow> nat \<Rightarrow> nat option" where
  "parseUint s lo hi =
     (if list_all isDigit s
      then (if atoi s < lo \<or> hi < atoi s then None else Some (atoi s))
      else None)"

text \<open>The Go slice \<^verbatim>\<open>s[i:j]\<close>.\<close>

definition slice :: "string \<Rightarrow> nat \<Rightarrow> nat \<Rightarrow> string" where
  "slice s i j = take (j - i) (drop i s)"

subsection \<open>Calendar\<close>

definition isLeap :: "nat \<Rightarrow> bool" where
  "isLeap y = (if y mod 4 = 0 then (if y mod 100 = 0 then y mod 400 = 0 else True) else False)"

definition daysIn :: "nat \<Rightarrow> nat \<Rightarrow> nat" where
  "daysIn m y =
     (if m = 2 then (if isLeap y then 29 else 28)
      else if m = 4 \<or> m = 6 \<or> m = 9 \<or> m = 11 then 30
      else 31)"

subsection \<open>time.Time.Format(time.RFC3339)\<close>

text \<open>
  The layout \<^verbatim>\<open>2006-01-02T15:04:05Z07:00\<close> has no fractional seconds: the nanoseconds are
  not written. The zone is \<^verbatim>\<open>Z\<close> for offset 0, else sign, hours and minutes of the offset
  (Go's integer division truncates towards zero).
\<close>

definition format_zone :: "int \<Rightarrow> string" where
  "format_zone offset =
     (if offset = 0 then ''Z''
      else
        let zone = (if offset < 0 then - ((- offset) div 60) else offset div 60)
        in (if zone < 0
            then CHR ''-'' # appendInt ((- zone) div 60) 2 @ '':'' @ appendInt ((- zone) mod 60) 2
            else CHR ''+'' # appendInt (zone div 60) 2 @ '':'' @ appendInt (zone mod 60) 2))"

definition Format_RFC3339 :: "ISO8601Time \<Rightarrow> string" where
  "Format_RFC3339 t =
     appendInt (Year t) 4 @ ''-'' @ appendInt (int (Month t)) 2 @ ''-'' @ appendInt (int (Day t)) 2
     @ ''T'' @ appendInt (int (Hour t)) 2 @ '':'' @ appendInt (int (Minute t)) 2 @ '':''
     @ appendInt (int (Second t)) 2 @ format_zone (ZoneOffset t)"

subsection \<open>time.Parse(time.RFC3339, str)\<close>

text \<open>
  \<^verbatim>\<open>parseNanoseconds\<close>: at most nine digits after the point count, scaled to nanoseconds.
\<close>

definition parseNanoseconds :: "string \<Rightarrow> nat" where
  "parseNanoseconds ds = atoi (take 9 ds) * 10 ^ (9 - length (take 9 ds))"

definition parse_fraction :: "string \<Rightarrow> nat \<times> string" where
  "parse_fraction s =
     (if 2 \<le> length s \<and> s ! 0 = CHR ''.'' \<and> isDigit (s ! 1)
      then (parseNanoseconds (takeWhile isDigit (drop 1 s)), dropWhile isDigit (drop 1 s))
      else (0, s))"

definition parse_zone :: "string \<Rightarrow> int option" where
  "parse_zone s =
     (if s = ''Z'' then Some 0
      else if length s \<noteq> 6 then None
      else case parseUint (slice s 1 3) 0 23 of
        None \<Rightarrow> None
      | Some hr \<Rightarrow>
     (case parseUint (slice s 4 6) 0 59 of
        None \<Rightarrow> None
      | Some mm \<Rightarrow>
          if (s ! 0 = CHR ''-'' \<or> s ! 0 = CHR ''+'') \<and> s ! 3 = CHR '':''
          then Some (if s ! 0 = CHR ''-'' then - int ((hr * 60 + mm) * 60)
                     else int ((hr * 60 + mm) * 60))
          else None))"

text \<open>
  \<^verbatim>\<open>parseRFC3339\<close>, the parser \<^verbatim>\<open>time.Parse\<close> tries first for this layout: four-digit
  year, two-digit month, day, hour, minute and second in their ranges, the separators,
  an optional fraction, and \<^verbatim>\<open>Z\<close> or a signed \<^verbatim>\<open>hh:mm\<close> offset.
\<close>

definition parseRFC3339 :: "string \<Rightarrow> ISO8601Time option" where
  "parseRFC3339 s =
     (if length s < 19 then None
      else case parseUint (slice s 0 4) 0 9999 of None \<Rightarrow> None | Some year \<Rightarrow>
     (case parseUint (slice s 5 7) 1 12 of None \<Rightarrow> None | Some month \<Rightarrow>
     (case parseUint (slice s 8 10) 1 (daysIn month year) of None \<Rightarrow> None | Some day \<Rightarrow>
     (case parseUint (slice s 11 13) 0 23 of None \<Rightarrow> None | Some hour \<Rightarrow>
     (case parseUint (slice s 14 16) 0 59 of None \<Rightarrow> None | Some minute \<Rightarrow>
     (case parseUint (slice s 17 19) 0 59 of None \<Rightarrow> None | Some sec \<Rightarrow>
        if s ! 4 = CHR ''-'' \<and> s ! 7 = CHR ''-'' \<and> s ! 10 = CHR ''T'' \<and> s ! 13 = CHR '':''
           \<and> s ! 16 = CHR '':''
        then (case parse_zone (snd (parse_fraction (drop 19 s))) of
                None \<Rightarrow> None
              | Some zoneOffset \<Rightarrow>
                  Some \<lparr>Year = int year, Month = month, Day = day, Hour = hour, Minute = minute,
                        Second = sec, Nanosecond = fst (parse_fraction (drop 19 s)),
                        ZoneOffset = zoneOffset\<rparr>)
        else None))))))"

text \<open>
  When \<^verbatim>\<open>parseRFC3339\<close> refuses a text, \<^verbatim>\<open>time.Parse\<close> hands it to its layout-driven
  parser, which takes a few more spellings. That parser is the parameter \<open>general\<close>.
\<close>

definition time_Parse :: "(string \<Rightarrow> ISO8601Time option) \<Rightarrow> string \<Rightarrow> ISO8601Time option" where
  "time_Parse general s =
     (case parseRFC3339 s of
        Some t \<Rightarrow> Some t
      | None \<Rightarrow> general s)"

subsection \<open>ISO8601Time.UnmarshalJSON and MarshalJSON\<close>

text \<open>\<^verbatim>\<open>bytes.Trim(data, `"`)\<close>: all leading and trailing double quotes are cut.\<close>

definition bytes_Trim :: "string \<Rightarrow> string" where
  "bytes_Trim data =
     rev (dropWhile (\<lambda>c. c = CHR 0x22) (rev (dropWhile (\<lambda>c. c = CHR 0x22) data)))"

datatype json_error =
    UnknownField string
  | UnmarshalTypeError string string
  | InvalidTimeFormat string
  | MarshalerError

definition UnmarshalJSON ::
    "(string \<Rightarrow> ISO8601Time option) \<Rightarrow> string \<Rightarrow> json_error + ISO8601Time" where
  "UnmarshalJSON general data =
     (let str = bytes_Trim data
      in case time_Parse general str of
           None \<Rightarrow> Inl (InvalidTimeFormat str)
         | Some parsedTime \<Rightarrow> Inr parsedTime)"

definition MarshalJSON :: "ISO8601Time \<Rightarrow> string" where
  "MarshalJSON t = CHR 0x22 # Format_RFC3339 t @ [CHR 0x22]"

section \<open>JSON decoding and encoding (model/model.go, Go's encoding/json)\<close>

text \<open>
  A payload is taken after the syntax check that \<^verbatim>\<open>Decode\<close> and \<^verbatim>\<open>Unmarshal\<close> run before
  they store anything: it is a JSON value. \<open>JInt\<close> is a number written as an integer,
  \<open>JFloat\<close> a number written with a fraction or an exponent (kept as its text); the members
  of an object are in the order of the text, duplicates included. A string is held
  unescaped; its token is \<open>json_quote\<close> of it, the spelling that escapes only what JSON
  requires.
\<close>

datatype json =
    JNull
  | JBool bool
  | JInt int
  | JFloat string
  | JString string
  | JArray "json list"
  | JObject "(string \<times> json) list"

definition kind_of :: "json \<Rightarrow> string" where
  "kind_of v =
     (case v of
        JNull \<Rightarrow> ''null''
      | JBool b \<Rightarrow> ''bool''
      | JInt i \<Rightarrow> ''number''
      | JFloat f \<Rightarrow> ''number''
      | JString s \<Rightarrow> ''string''
      | JArray vs \<Rightarrow> ''array''
      | JObject ms \<Rightarrow> ''object'')"

definition hex_digit :: "nat \<Rightarrow> char" where
  "hex_digit n = ''0123456789abcdef'' ! n"

definition json_escape :: "char \<Rightarrow> string" where
  "json_escape c =
     (if c = CHR 0x22 then [CHR 0x5C, CHR 0x22]
      else if c = CHR 0x5C then [CHR 0x5C, CHR 0x5C]
      else if (of_char c :: nat) < 32
        then [CHR 0x5C, CHR ''u'', CHR ''0'', CHR ''0'',
              hex_digit (of_char c div 16), hex_digit (of_char c mod 16)]
      else [c])"

definition json_quote :: "string \<Rightarrow> string" where
  "json_quote s = CHR 0x22 # concat (map json_escape s) @ [CHR 0x22]"

text \<open>
  The encoder copies what \<^verbatim>\<open>MarshalJSON\<close> returns into its output after checking that it
  is a JSON text. \<open>string_token\<close> reads a quoted text without escapes back as the string
  it denotes; nothing else is accepted from \<^verbatim>\<open>MarshalJSON\<close> here.
\<close>

definition plain_char :: "char \<Rightarrow> bool" where
  "plain_char c = (c \<noteq> CHR 0x22 \<and> c \<noteq> CHR 0x5C \<and> 32 \<le> (of_char c :: nat))"

definition string_token :: "string \<Rightarrow> string option" where
  "string_token tok =
     (if 2 \<le> length tok \<and> hd tok = CHR 0x22 \<and> last tok = CHR 0x22
         \<and> list_all plain_char (butlast (tl tok))
      then Some (butlast (tl tok))
      else None)"

subsection \<open>Matching an object key with a struct field\<close>

text \<open>
  A key names a field when the two are equal under Unicode simple case folding
  (\<^verbatim>\<open>foldName\<close>). The field names here are ASCII, and the only characters outside ASCII
  that fold onto an ASCII letter are U+017F (onto S, bytes C5 BF) and U+212A (onto K,
  bytes E2 84 AA); every other byte is left as it is.
\<close>

definition to_upper :: "char \<Rightarrow> char" where
  "to_upper c =
     (if 97 \<le> (of_char c :: nat) \<and> (of_char c :: nat) \<le> 122 then char_of (of_char c - 32 :: nat)
      else c)"

fun foldName :: "string \<Rightarrow> string" where
  "foldName [] = []"
| "foldName (c # cs) =
     (if c = CHR 0xC5 \<and> take 1 cs = [CHR 0xBF] then CHR ''S'' # foldName (drop 1 cs)
      else if c = CHR 0xE2 \<and> take 2 cs = [CHR 0x84, CHR 0xAA] then CHR ''K'' # foldName (drop 2 cs)
      else to_upper c # foldName cs)"

definition matches :: "string \<Rightarrow> string \<Rightarrow> bool" where
  "matches key name = (foldName key = foldName name)"

subsection \<open>Storing values\<close>

text \<open>
  The decoder fills the target in place. A value of the wrong kind and, when
  \<^verbatim>\<open>DisallowUnknownFields\<close> is set, an unknown key are saved as the error to return at the
  end (\<^verbatim>\<open>saveError\<close> keeps the first one) and decoding goes on; \<^verbatim>\<open>null\<close> leaves a string,
  an integer or a struct as it is.
\<close>

record 'a decoding =
  target :: 'a
  savedError :: "json_error option"

definition saveError :: "json_error \<Rightarrow> 'a decoding \<Rightarrow> 'a decoding" where
  "saveError err st = (if savedError st = None then st\<lparr>savedError := Some err\<rparr> else st)"

definition set_string :: "string \<Rightarrow> json \<Rightarrow> (string \<Rightarrow> 'a \<Rightarrow> 'a) \<Rightarrow> 'a decoding \<Rightarrow> 'a decoding" where
  "set_string field v upd st =
     (case v of
        JString str \<Rightarrow> st\<lparr>target := upd str (target st)\<rparr>
      | JNull \<Rightarrow> st
      | _ \<Rightarrow> saveError (UnmarshalTypeError (kind_of v) field) st)"

definition set_int :: "string \<Rightarrow> json \<Rightarrow> (go_int \<Rightarrow> 'a \<Rightarrow> 'a) \<Rightarrow> 'a decoding \<Rightarrow> 'a decoding" where
  "set_int field v upd st =
     (case v of
        JInt i \<Rightarrow>
          if - (2 ^ 63) \<le> i \<and> i < 2 ^ 63 then st\<lparr>target := upd (word_of_int i) (target st)\<rparr>
          else saveError (UnmarshalTypeError ''number'' field) st
      | JNull \<Rightarrow> st
      | _ \<Rightarrow> saveError (UnmarshalTypeError (kind_of v) field) st)"

subsection \<open>AddressDetails, PaymentDetails, ProductItem\<close>

definition decode_AddressDetails_member ::
    "bool \<Rightarrow> string \<times> json \<Rightarrow> AddressDetails decoding \<Rightarrow> AddressDetails decoding" where
  "decode_AddressDetails_member disallow m st =
     (let key = fst m; v = snd m in
      if matches key ''name'' then set_string ''name'' v (\<lambda>x a. a\<lparr>FullName := x\<rparr>) st
      else if matches key ''phone'' then set_string ''phone'' v (\<lambda>x a. a\<lparr>Phone := x\<rparr>) st
      else if matches key ''zip'' then set_string ''zip'' v (\<lambda>x a. a\<lparr>ZipCode := x\<rparr>) st
      else if matches key ''city'' then set_string ''city'' v (\<lambda>x a. a\<lparr>City := x\<rparr>) st
      else if matches key ''address'' then set_string ''address'' v (\<lambda>x a. a\<lparr>Street := x\<rparr>) st
      else if matches key ''region'' then set_string ''region'' v (\<lambda>x a. a\<lparr>Region := x\<rparr>) st
      else if matches key ''email'' then set_string ''email'' v (\<lambda>x a. a\<lparr>Email := x\<rparr>) st
      else if disallow then saveError (UnknownField key) st
      else st)"

definition decode_PaymentDetails_member ::
    "bool \<Rightarrow> string \<times> json \<Rightarrow> PaymentDetails decoding \<Rightarrow> PaymentDetails decoding" where
  "decode_PaymentDetails_member disallow m st =
     (let key = fst m; v = snd m in
      if matches key ''transaction''
        then set_string ''transaction'' v (\<lambda>x a. a\<lparr>TransactionID := x\<rparr>) st
      else if matches key ''request_id''
        then set_string ''request_id'' v (\<lambda>x a. a\<lparr>RequestID := x\<rparr>) st
      else if matches key ''currency'' then set_string ''currency'' v (\<lambda>x a. a\<lparr>Currency := x\<rparr>) st
      else if matches key ''provider'' then set_string ''provider'' v (\<lambda>x a. a\<lparr>Provider := x\<rparr>) st
      else if matches key ''amount'' then set_int ''amount'' v (\<lambda>x a. a\<lparr>Amount := x\<rparr>) st
      else if matches key ''payment_dt''
        then set_int ''payment_dt'' v (\<lambda>x a. a\<lparr>PaymentDate := x\<rparr>) st
      else if matches key ''bank'' then set_string ''bank'' v (\<lambda>x a. a\<lparr>Bank := x\<rparr>) st
      else if matches key ''delivery_cost''
        then set_int ''delivery_cost'' v (\<lambda>x a. a\<lparr>DeliveryCost := x\<rparr>) st
      else if matches key ''goods_total''
        then set_int ''goods_total'' v (\<lambda>x a. a\<lparr>TotalGoods := x\<rparr>) st
      else if matches key ''custom_fee''
        then set_int ''custom_fee'' v (\<lambda>x a. a\<lparr>CustomFee := x\<rparr>) st
      else if disallow then saveError (UnknownField key) st
      else st)"

definition decode_ProductItem_member ::
    "bool \<Rightarrow> string \<times> json \<Rightarrow> ProductItem decoding \<Rightarrow> ProductItem decoding" where
  "decode_ProductItem_member disallow m st =
     (let key = fst m; v = snd m in
      if matches key ''chrt_id'' then set_int ''chrt_id'' v (\<lambda>x a. a\<lparr>ChartID := x\<rparr>) st
      else if matches key ''track_number''
        then set_string ''track_number'' v (\<lambda>x a. a\<lparr>TrackingNum := x\<rparr>) st
      else if matches key ''price'' then set_int ''price'' v (\<lambda>x a. a\<lparr>Price := x\<rparr>) st
      else if matches key ''rid'' then set_string ''rid'' v (\<lambda>x a. a\<lparr>RID := x\<rparr>) st
      else if matches key ''name'' then set_string ''name'' v (\<lambda>x a. a\<lparr>Name := x\<rparr>) st
      else if matches key ''sale'' then set_int ''sale'' v (\<lambda>x a. a\<lparr>Discount := x\<rparr>) st
      else if matches key ''size'' then set_string ''size'' v (\<lambda>x a. a\<lparr>Size := x\<rparr>) st
      else if matches key ''total_price''
        then set_int ''total_price'' v (\<lambda>x a. a\<lparr>TotalPrice := x\<rparr>) st
      else if matches key ''nm_id'' then set_int ''nm_id'' v (\<lambda>x a. a\<lparr>ProductID := x\<rparr>) st
      else if matches key ''brand'' then set_string ''brand'' v (\<lambda>x a. a\<lparr>Brand := x\<rparr>) st
      else if matches key ''status'' then set_int ''status'' v (\<lambda>x a. a\<lparr>Status := x\<rparr>) st
      else if disallow then saveError (UnknownField key) st
      else st)"

text \<open>
  A struct field takes an object, whose members are stored one after the other into the
  value the field already has. The saved error belongs to the whole decoder and is
  handed in and out.
\<close>

definition set_struct ::
    "string \<Rightarrow> json \<Rightarrow> (string \<times> json \<Rightarrow> 'b decoding \<Rightarrow> 'b decoding) \<Rightarrow> ('a \<Rightarrow> 'b) \<Rightarrow> ('b \<Rightarrow> 'a \<Rightarrow> 'a)
      \<Rightarrow> 'a decoding \<Rightarrow> 'a decoding" where
  "set_struct field v member get upd st =
     (case v of
        JObject ms \<Rightarrow>
          let inner = foldl (\<lambda>d m. member m d)
                        \<lparr>target = get (target st), savedError = savedError st\<rparr> ms
          in \<lparr>target = upd (target inner) (target st), savedError = savedError inner\<rparr>
      | JNull \<Rightarrow> st
      | _ \<Rightarrow> saveError (UnmarshalTypeError (kind_of v) field) st)"

definition zero_ProductItem :: ProductItem where
  "zero_ProductItem =
     \<lparr>ChartID = 0, TrackingNum = [], Price = 0, RID = [], Name = [], Discount = 0,
      Size = [], TotalPrice = 0, ProductID = 0, Brand = [], Status = 0\<rparr>"

text \<open>
  An array resets the slice and appends one element for each of its values, each decoded
  into a zero \<^verbatim>\<open>ProductItem\<close>; \<^verbatim>\<open>null\<close> makes the slice nil.
\<close>

definition decode_ProductItem ::
    "bool \<Rightarrow> json \<Rightarrow> json_error option \<Rightarrow> ProductItem decoding" where
  "decode_ProductItem disallow v saved =
     (case v of
        JObject ms \<Rightarrow>
          foldl (\<lambda>d m. decode_ProductItem_member disallow m d)
            \<lparr>target = zero_ProductItem, savedError = saved\<rparr> ms
      | JNull \<Rightarrow> \<lparr>target = zero_ProductItem, savedError = saved\<rparr>
      | _ \<Rightarrow> saveError (UnmarshalTypeError (kind_of v) ''items'')
               \<lparr>target = zero_ProductItem, savedError = saved\<rparr>)"

fun decode_items :: "bool \<Rightarrow> json list \<Rightarrow> json_error option \<Rightarrow> ProductItem list decoding" where
  "decode_items disallow [] saved = \<lparr>target = [], savedError = saved\<rparr>"
| "decode_items disallow (v # vs) saved =
     (let d = decode_ProductItem disallow v saved;
          rest = decode_items disallow vs (savedError d)
      in \<lparr>target = target d # target rest, savedError = savedError rest\<rparr>)"

definition set_items :: "bool \<Rightarrow> json \<Rightarrow> OrderDetails decoding \<Rightarrow> OrderDetails decoding" where
  "set_items disallow v st =
     (case v of
        JArray vs \<Rightarrow>
          let d = decode_items disallow vs (savedError st)
          in \<lparr>target = (target st)\<lparr>Products := target d\<rparr>, savedError = savedError d\<rparr>
      | JNull \<Rightarrow> st\<lparr>target := (target st)\<lparr>Products := []\<rparr>\<rparr>
      | _ \<Rightarrow> saveError (UnmarshalTypeError (kind_of v) ''items'') st)"

subsection \<open>OrderDetails\<close>

text \<open>
  \<^verbatim>\<open>ISO8601Time\<close> has an \<^verbatim>\<open>UnmarshalJSON\<close> method, so the decoder hands it the text of
  whatever value stands under \<^verbatim>\<open>date_created\<close>, \<^verbatim>\<open>null\<close> included, and returns its error
  at once. The text of a value that is not a string never starts with a four-digit year
  and a dash, so \<^verbatim>\<open>time.Parse\<close> refuses it.
\<close>

definition decode_time :: "(string \<Rightarrow> ISO8601Time option) \<Rightarrow> json \<Rightarrow> json_error + ISO8601Time" where
  "decode_time general v =
     (case v of
        JString str \<Rightarrow> UnmarshalJSON general (json_quote str)
      | _ \<Rightarrow> Inl (InvalidTimeFormat (kind_of v)))"

definition decode_OrderDetails_member ::
    "(string \<Rightarrow> ISO8601Time option) \<Rightarrow> bool \<Rightarrow> string \<times> json \<Rightarrow> OrderDetails decoding
      \<Rightarrow> json_error + OrderDetails decoding" where
  "decode_OrderDetails_member general disallow m st =
     (let key = fst m; v = snd m in
      if matches key ''order_uid''
        then Inr (set_string ''order_uid'' v (\<lambda>x a. a\<lparr>OrderID := x\<rparr>) st)
      else if matches key ''track_number''
        then Inr (set_string ''track_number'' v (\<lambda>x a. a\<lparr>TrackingNumber := x\<rparr>) st)
      else if matches key ''entry''
        then Inr (set_string ''entry'' v (\<lambda>x a. a\<lparr>EntryPoint := x\<rparr>) st)
      else if matches key ''delivery''
        then Inr (set_struct ''delivery'' v (decode_AddressDetails_member disallow)
                    Address (\<lambda>x a. a\<lparr>Address := x\<rparr>) st)
      else if matches key ''payment''
        then Inr (set_struct ''payment'' v (decode_PaymentDetails_member disallow)
                    Payment (\<lambda>x a. a\<lparr>Payment := x\<rparr>) st)
      else if matches key ''items'' then Inr (set_items disallow v st)
      else if matches key ''locale''
        then Inr (set_string ''locale'' v (\<lambda>x a. a\<lparr>Locale := x\<rparr>) st)
      else if matches key ''internal_signature''
        then Inr (set_string ''internal_signature'' v (\<lambda>x a. a\<lparr>Signature := x\<rparr>) st)
      else if matches key ''customer_id''
        then Inr (set_string ''customer_id'' v (\<lambda>x a. a\<lparr>CustomerID := x\<rparr>) st)
      else if matches key ''delivery_service''
        then Inr (set_string ''delivery_service'' v (\<lambda>x a. a\<lparr>DeliveryService := x\<rparr>) st)
      else if matches key ''shardkey''
        then Inr (set_string ''shardkey'' v (\<lambda>x a. a\<lparr>ShardKey := x\<rparr>) st)
      else if matches key ''sm_id'' then Inr (set_int ''sm_id'' v (\<lambda>x a. a\<lparr>SMID := x\<rparr>) st)
      else if matches key ''date_created''
        then (case decode_time general v of
                Inl err \<Rightarrow> Inl err
              | Inr t \<Rightarrow> Inr (st\<lparr>target := (target st)\<lparr>CreationTimestamp := t\<rparr>\<rparr>))
      else if matches key ''oof_shard''
        then Inr (set_string ''oof_shard'' v (\<lambda>x a. a\<lparr>OutOfShard := x\<rparr>) st)
      else if disallow then Inr (saveError (UnknownField key) st)
      else Inr st)"

fun decode_OrderDetails_members ::
    "(string \<Rightarrow> ISO8601Time option) \<Rightarrow> bool \<Rightarrow> (string \<times> json) list \<Rightarrow> OrderDetails decoding
      \<Rightarrow> json_error + OrderDetails decoding" where
  "decode_OrderDetails_members general disallow [] st = Inr st"
| "decode_OrderDetails_members general disallow (m # ms) st =
     (case decode_OrderDetails_member general disallow m st of
        Inl err \<Rightarrow> Inl err
      | Inr st' \<Rightarrow> decode_OrderDetails_members general disallow ms st')"

text \<open>
  Decoding a payload into \<^verbatim>\<open>&order\<close>: an object is stored member by member, \<^verbatim>\<open>null\<close>
  stores nothing and is no error, any other value is a type error. The saved error, if
  any, is the result when no call failed outright.
\<close>

definition Decode ::
    "(string \<Rightarrow> ISO8601Time option) \<Rightarrow> bool \<Rightarrow> json \<Rightarrow> OrderDetails \<Rightarrow> json_error + OrderDetails" where
  "Decode general disallow data order =
     (case data of
        JObject ms \<Rightarrow>
          (case decode_OrderDetails_members general disallow ms
                  \<lparr>target = order, savedError = None\<rparr> of
             Inl err \<Rightarrow> Inl err
           | Inr st \<Rightarrow>
               (case savedError st of
                  Some err \<Rightarrow> Inl err
                | None \<Rightarrow> Inr (target st)))
      | JNull \<Rightarrow> Inr order
      | _ \<Rightarrow> Inl (UnmarshalTypeError (kind_of data) ''OrderDetails''))"

definition zero_ISO8601Time :: ISO8601Time where
  "zero_ISO8601Time =
     \<lparr>Year = 1, Month = 1, Day = 1, Hour = 0, Minute = 0, Second = 0, Nanosecond = 0,
      ZoneOffset = 0\<rparr>"

definition zero_OrderDetails :: OrderDetails where
  "zero_OrderDetails =
     \<lparr>OrderID = [], TrackingNumber = [], EntryPoint = [],
      Address = \<lparr>FullName = [], Phone = [], ZipCode = [], City = [], Street = [],
                 Region = [], Email = []\<rparr>,
      Payment = \<lparr>TransactionID = [], RequestID = [], Currency = [], Provider = [],
                 Amount = 0, PaymentDate = 0, Bank = [], DeliveryCost = 0, TotalGoods = 0,
                 CustomFee = 0\<rparr>,
      Products = [], Locale = [], Signature = [], CustomerID = [], DeliveryService = [],
      ShardKey = [], SMID = 0, CreationTimestamp = zero_ISO8601Time, OutOfShard = []\<rparr>"

subsection \<open>ParseOrder\<close>

datatype parse_error = InvalidJSONStructure json_error | TooManyProducts

definition ParseOrder ::
    "(string \<Rightarrow> ISO8601Time option) \<Rightarrow> json \<Rightarrow> int \<Rightarrow> parse_error + OrderDetails" where
  "ParseOrder general data maxItems =
     (case Decode general True data zero_OrderDetails of
        Inl err \<Rightarrow> Inl (InvalidJSONStructure err)
      | Inr order \<Rightarrow>
          if int (length (Products order)) > maxItems then Inl TooManyProducts
          else Inr order)"

subsection \<open>json.Marshal of an order\<close>

text \<open>
  A Go string is a sequence of bytes. \<^verbatim>\<open>appendString\<close> of the encoder goes through the
  string with \<^verbatim>\<open>utf8.DecodeRuneInString\<close>: a byte at which no valid UTF-8 encoding starts
  (the decoder returns \<^verbatim>\<open>RuneError\<close> with width 1) is written as the escape of U+FFFD, and the
  encodings are copied, some of them escaped. A reader of the text gets the escaped bytes
  themselves and the three bytes of U+FFFD where its escape was written, so the string that
  the output denotes is \<open>appendString\<close> of the Go string.

  \<open>first_byte\<close> is the table \<^verbatim>\<open>first\<close> of the package utf8 with its \<^verbatim>\<open>acceptRanges\<close>: the
  width that a leading byte announces and the range of the second byte.
\<close>

definition first_byte :: "nat \<Rightarrow> (nat \<times> nat \<times> nat) option" where
  "first_byte b =
     (if 0xC2 \<le> b \<and> b \<le> 0xDF then Some (2, 0x80, 0xBF)
      else if b = 0xE0 then Some (3, 0xA0, 0xBF)
      else if 0xE1 \<le> b \<and> b \<le> 0xEC then Some (3, 0x80, 0xBF)
      else if b = 0xED then Some (3, 0x80, 0x9F)
      else if 0xEE \<le> b \<and> b \<le> 0xEF then Some (3, 0x80, 0xBF)
      else if b = 0xF0 then Some (4, 0x90, 0xBF)
      else if 0xF1 \<le> b \<and> b \<le> 0xF3 then Some (4, 0x80, 0xBF)
      else if b = 0xF4 then Some (4, 0x80, 0x8F)
      else None)"

definition byte_in :: "char \<Rightarrow> nat \<Rightarrow> nat \<Rightarrow> bool" where
  "byte_in c lo hi = (lo \<le> (of_char c :: nat) \<and> (of_char c :: nat) \<le> hi)"

text \<open>
  The width of the encoding at the head of a non-empty string, \<open>None\<close> for \<^verbatim>\<open>RuneError\<close>
  with width 1.
\<close>

definition DecodeRuneInString :: "string \<Rightarrow> nat option" where
  "DecodeRuneInString s =
     (if (of_char (hd s) :: nat) < 0x80 then Some 1
      else case first_byte (of_char (hd s)) of
        None \<Rightarrow> None
      | Some (sz, lo, hi) \<Rightarrow>
          if length s < sz then None
          else if \<not> byte_in (s ! 1) lo hi then None
          else if sz \<le> 2 then Some 2
          else if \<not> byte_in (s ! 2) 0x80 0xBF then None
          else if sz \<le> 3 then Some 3
          else if \<not> byte_in (s ! 3) 0x80 0xBF then None
          else Some 4)"

definition RuneError_bytes :: string where
  "RuneError_bytes = [CHR 0xEF, CHR 0xBF, CHR 0xBD]"

fun appendString :: "string \<Rightarrow> string" where
  "appendString [] = []"
| "appendString (c # cs) =
     (case DecodeRuneInString (c # cs) of
        None \<Rightarrow> RuneError_bytes @ appendString cs
      | Some n \<Rightarrow> c # take (n - 1) cs @ appendString (drop (n - 1) cs))"

definition marshal_AddressDetails :: "AddressDetails \<Rightarrow> json" where
  "marshal_AddressDetails a =
     JObject [(''name'', JString (appendString (FullName a))),
              (''phone'', JString (appendString (Phone a))),
              (''zip'', JString (appendString (ZipCode a))),
              (''city'', JString (appendString (City a))),
              (''address'', JString (appendString (Street a))),
              (''region'', JString (appendString (Region a))),
              (''email'', JString (appendString (Email a)))]"

definition marshal_PaymentDetails :: "PaymentDetails \<Rightarrow> json" where
  "marshal_PaymentDetails p =
     JObject [(''transaction'', JString (appendString (TransactionID p))),
              (''request_id'', JString (appendString (RequestID p))),
              (''currency'', JString (appendString (Currency p))),
              (''provider'', JString (appendString (Provider p))),
              (''amount'', JInt (sint (Amount p))), (''payment_dt'', JInt (sint (PaymentDate p))),
              (''bank'', JString (appendString (Bank p))),
              (''delivery_cost'', JInt (sint (DeliveryCost p))),
              (''goods_total'', JInt (sint (TotalGoods p))),
              (''custom_fee'', JInt (sint (CustomFee p)))]"

definition marshal_ProductItem :: "ProductItem \<Rightarrow> json" where
  "marshal_ProductItem it =
     JObject [(''chrt_id'', JInt (sint (ChartID it))),
              (''track_number'', JString (appendString (TrackingNum it))),
              (''price'', JInt (sint (Price it))), (''rid'', JString (appendString (RID it))),
              (''name'', JString (appendString (Name it))), (''sale'', JInt (sint (Discount it))),
              (''size'', JString (appendString (Size it))),
              (''total_price'', JInt (sint (TotalPrice it))),
              (''nm_id'', JInt (sint (ProductID it))),
              (''brand'', JString (appendString (Brand it))),
              (''status'', JInt (sint (Status it)))]"

text \<open>
  The members are written in the order of the struct's fields. (For a nil slice of
  products Go writes \<^verbatim>\<open>null\<close> where an empty slice gives \<^verbatim>\<open>[]\<close>; both decode to no
  products.)
\<close>

definition json_Marshal :: "OrderDetails \<Rightarrow> json_error + json" where
  "json_Marshal order =
     (case string_token (MarshalJSON (CreationTimestamp order)) of
        None \<Rightarrow> Inl MarshalerError
      | Some ts \<Rightarrow>
          Inr (JObject
            [(''order_uid'', JString (appendString (OrderID order))),
             (''track_number'', JString (appendString (TrackingNumber order))),
             (''entry'', JString (appendString (EntryPoint order))),
             (''delivery'', marshal_AddressDetails (Address order)),
             (''payment'', marshal_PaymentDetails (Payment order)),
             (''items'', JArray (map marshal_ProductItem (Products order))),
             (''locale'', JString (appendString (Locale order))),
             (''internal_signature'', JString (appendString (Signature order))),
             (''customer_id'', JString (appendString (CustomerID order))),
             (''delivery_service'', JString (appendString (DeliveryService order))),
             (''shardkey'', JString (appendString (ShardKey order))),
             (''sm_id'', JInt (sint (SMID order))),
             (''date_created'', JString ts),
             (''oof_shard'', JString (appendString (OutOfShard order)))]))"

section \<open>Stream consumer (kafka/kafka.go)\<close>

datatype kafka_error = InvalidOrderFormat

text \<open>\<^verbatim>\<open>decodeOrder\<close> calls \<^verbatim>\<open>json.Unmarshal\<close>: unknown keys are skipped.\<close>

definition decodeOrder ::
    "(string \<Rightarrow> ISO8601Time option) \<Rightarrow> json \<Rightarrow> kafka_error + OrderDetails" where
  "decodeOrder general data =
     (case Decode general False data zero_OrderDetails of
        Inl err \<Rightarrow> Inl InvalidOrderFormat
      | Inr order \<Rightarrow> Inr order)"

text \<open>
  One turn of the loop of \<^verbatim>\<open>StartListening\<close> after \<^verbatim>\<open>ReadMessage\<close> has returned: a read
  error, a message that does not decode and a failed \<^verbatim>\<open>AddOrder\<close> are logged and the
  loop goes on. The store of the consumer is the cache service (main.go). \<open>Malformed\<close> is
  a message whose value is no JSON text, which \<^verbatim>\<open>json.Unmarshal\<close> refuses before it stores
  anything.
\<close>

datatype received = ReadError | Malformed | Message json

definition consume ::
    "(string \<Rightarrow> ISO8601Time option) \<Rightarrow> admission \<Rightarrow> faults \<Rightarrow> cacheService \<Rightarrow> received
      \<Rightarrow> cacheService" where
  "consume general a io s msg =
     (case msg of
        ReadError \<Rightarrow> s
      | Malformed \<Rightarrow> s
      | Message data \<Rightarrow>
          (case decodeOrder general data of
             Inl err \<Rightarrow> s
           | Inr order \<Rightarrow> fst (AddOrder a io s order)))"

text \<open>The loop, over the messages received until the context is cancelled.\<close>

fun StartListening ::
    "(string \<Rightarrow> ISO8601Time option) \<Rightarrow> cacheService \<Rightarrow> (received \<times> admission \<times> faults) list
      \<Rightarrow> cacheService" where
  "StartListening general s [] = s"
| "StartListening general s ((msg, a, io) # rest) =
     StartListening general (consume general a io s msg) rest"

section \<open>Query surface (transport/transport.go)\<close>

record request =
  Method :: string
  order_uid :: string

datatype response_body = PlainText string | ErrorFetchingOrder db_error | OrderJSON json

definition StatusOK :: nat where
  "StatusOK = 200"

definition StatusBadRequest :: nat where
  "StatusBadRequest = 400"

definition StatusMethodNotAllowed :: nat where
  "StatusMethodNotAllowed = 405"

definition StatusInternalServerError :: nat where
  "StatusInternalServerError = 500"

text \<open>
  \<open>order_uid r\<close> is \<^verbatim>\<open>r.URL.Query().Get("order_uid")\<close>, empty when the parameter is absent.
\<close>

definition orderHandler ::
    "admission \<Rightarrow> faults \<Rightarrow> cacheService \<Rightarrow> request \<Rightarrow> cacheService \<times> nat \<times> response_body" where
  "orderHandler a io s r =
     (if Method r \<noteq> ''GET'' then (s, StatusMethodNotAllowed, PlainText ''Invalid method'')
      else if order_uid r = [] then (s, StatusBadRequest, PlainText ''Missing order UID'')
      else case GetOrder a io s (order_uid r) of
        (s', Inl err) \<Rightarrow> (s', StatusInternalServerError, ErrorFetchingOrder err)
      | (s', Inr order) \<Rightarrow>
          (case json_Marshal order of
             Inl err \<Rightarrow> (s', StatusInternalServerError, PlainText ''Failed to encode response'')
           | Inr j \<Rightarrow> (s', StatusOK, OrderJSON j)))"

section \<open>Sample data\<close>

text \<open>The order that the script under scripts/ sends, an empty store and a fresh service.\<close>

definition test_order :: OrderDetails where
  "test_order =
     \<lparr>OrderID = ''b563feb7b2b84b6test'', TrackingNumber = ''WBILMTESTTRACK'', EntryPoint = ''WBIL'',
      Address = \<lparr>FullName = ''Test Testov'', Phone = ''+9720000000'', ZipCode = ''2639809'',
                 City = ''Kiryat Mozkin'', Street = ''Ploshad Mira 15'', Region = ''Kraiot'',
                 Email = ''test@gmail.com''\<rparr>,
      Payment = \<lparr>TransactionID = ''b563feb7b2b84b6test'', RequestID = [], Currency = ''USD'',
                 Provider = ''wbpay'', Amount = 1817, PaymentDate = 1637907727, Bank = ''alpha'',
                 DeliveryCost = 1500, TotalGoods = 317, CustomFee = 0\<rparr>,
      Products = [\<lparr>ChartID = 9934930, TrackingNum = ''WBILMTESTTRACK'', Price = 453,
                   RID = ''ab4219087a764ae0btest'', Name = ''Mascaras'', Discount = 30, Size = ''0'',
                   TotalPrice = 317, ProductID = 2389212, Brand = ''Vivienne Sabo'', Status = 202\<rparr>],
      Locale = ''en'', Signature = [], CustomerID = ''test'', DeliveryService = ''meest'',
      ShardKey = ''9'', SMID = 99,
      CreationTimestamp = \<lparr>Year = 2021, Month = 11, Day = 26, Hour = 6, Minute = 22, Second = 19,
                            Nanosecond = 0, ZoneOffset = 0\<rparr>,
      OutOfShard = ''1''\<rparr>"

definition empty_db :: dbService where
  "empty_db =
     \<lparr>rows = \<lparr>delivery = [], payment = [], items = [], orders = [], order_item_conn = []\<rparr>,
      delivery_id_seq = 0\<rparr>"

definition no_faults :: faults where
  "no_faults = (\<lambda>st. False)"

text \<open>A store that is down: every statement fails.\<close>

definition store_down :: faults where
  "store_down = (\<lambda>st. True)"

definition empty_service :: cacheService where
  "empty_service = \<lparr>cache = Map.empty, db = empty_db, maxSize = 1024, db_calls = []\<rparr>"

text \<open>
  The service after the sample order went through \<^verbatim>\<open>AddOrder\<close> while the cache dropped
  the \<^verbatim>\<open>Set\<close>: the order is in the store and not in the cache.
\<close>

definition stored_service :: cacheService where
  "stored_service = fst (AddOrder Dropped no_faults empty_service test_order)"

section \<open>Notions of the specification\<close>



text \<open>
  An order whose strings are valid UTF-8. \<open>ValidString\<close> is \<^verbatim>\<open>utf8.ValidString\<close>: the string
  is a sequence of valid encodings.
\<close>

fun ValidString :: "string \<Rightarrow> bool" where
  "ValidString [] = True"
| "ValidString (c # cs) =
     (case DecodeRuneInString (c # cs) of
        None \<Rightarrow> False
      | Some n \<Rightarrow> ValidString (drop (n - 1) cs))"

definition utf8_AddressDetails :: "AddressDetails \<Rightarrow> bool" where
  "utf8_AddressDetails a =
     list_all ValidString [FullName a, Phone a, ZipCode a, City a, Street a, Region a, Email a]"

definition utf8_PaymentDetails :: "PaymentDetails \<Rightarrow> bool" where
  "utf8_PaymentDetails p =
     list_all ValidString [TransactionID p, RequestID p, Currency p, Provider p, Bank p]"

definition utf8_ProductItem :: "ProductItem \<Rightarrow> bool" where
  "utf8_ProductItem it = list_all ValidString [TrackingNum it, RID it, Name it, Size it, Brand it]"

definition utf8_strings :: "OrderDetails \<Rightarrow> bool" where
  "utf8_strings order =
     (list_all ValidString
        [OrderID order, TrackingNumber order, EntryPoint order, Locale order, Signature order,
         CustomerID order, DeliveryService order, ShardKey order, OutOfShard order]
      \<and> utf8_AddressDetails (Address order) \<and> utf8_PaymentDetails (Payment order)
      \<and> list_all utf8_ProductItem (Products order))"

text \<open>
  A timestamp that \<^verbatim>\<open>Format\<close> writes in the shape of the layout: a calendar date of the
  years 0 to 9999, a time of day, and a zone offset of whole minutes within a day.
\<close>

definition valid_timestamp :: "ISO8601Time \<Rightarrow> bool" where
  "valid_timestamp t =
     (0 \<le> Year t \<and> Year t \<le> 9999 \<and> 1 \<le> Month t \<and> Month t \<le> 12 \<and> 1 \<le> Day t
      \<and> Day t \<le> daysIn (Month t) (nat (Year t)) \<and> Hour t < 24 \<and> Minute t < 60 \<and> Second t < 60
      \<and> \<bar>ZoneOffset t\<bar> < 86400 \<and> ZoneOffset t mod 60 = 0)"

section \<open>More sample data\<close>

text \<open>The general parser that takes nothing beyond what \<^verbatim>\<open>parseRFC3339\<close> takes.\<close>

definition strict_only :: "string \<Rightarrow> ISO8601Time option" where
  "strict_only s = None"

text \<open>The JSON text of the sample order, as \<^verbatim>\<open>SendOrder\<close> publishes it.\<close>

definition test_payload :: json where
  "test_payload =
     JObject
       [(''order_uid'', JString ''b563feb7b2b84b6test''),
        (''track_number'', JString ''WBILMTESTTRACK''),
        (''entry'', JString ''WBIL''),
        (''delivery'',
           JObject [(''name'', JString ''Test Testov''), (''phone'', JString ''+9720000000''),
                    (''zip'', JString ''2639809''), (''city'', JString ''Kiryat Mozkin''),
                    (''address'', JString ''Ploshad Mira 15''), (''region'', JString ''Kraiot''),
                    (''email'', JString ''test@gmail.com'')]),
        (''payment'',
           JObject [(''transaction'', JString ''b563feb7b2b84b6test''),
                    (''request_id'', JString []), (''currency'', JString ''USD''),
                    (''provider'', JString ''wbpay''), (''amount'', JInt 1817),
                    (''payment_dt'', JInt 1637907727), (''bank'', JString ''alpha''),
                    (''delivery_cost'', JInt 1500), (''goods_total'', JInt 317),
                    (''custom_fee'', JInt 0)]),
        (''items'',
           JArray [JObject [(''chrt_id'', JInt 9934930),
                            (''track_number'', JString ''WBILMTESTTRACK''),
                            (''price'', JInt 453), (''rid'', JString ''ab4219087a764ae0btest''),
                            (''name'', JString ''Mascaras''), (''sale'', JInt 30),
                            (''size'', JString ''0''), (''total_price'', JInt 317),
                            (''nm_id'', JInt 2389212), (''brand'', JString ''Vivienne Sabo''),
                            (''status'', JInt 202)]]),
        (''locale'', JString ''en''),
        (''internal_signature'', JString []),
        (''customer_id'', JString ''test''),
        (''delivery_service'', JString ''meest''),
        (''shardkey'', JString ''9''),
        (''sm_id'', JInt 99),
        (''date_created'', JString ''2021-11-26T06:22:19Z''),
        (''oof_shard'', JString ''1'')]"

text \<open>The sample order created half a second later.\<close>

definition half_second_order :: OrderDetails where
  "half_second_order =
     test_order\<lparr>CreationTimestamp := (CreationTimestamp test_order)\<lparr>Nanosecond := 500000000\<rparr>\<rparr>"

text \<open>An order with two items, and a payload that decodes to it.\<close>

definition two_items_order :: OrderDetails where
  "two_items_order =
     zero_OrderDetails
       \<lparr>OrderID := ''big'',
        Products := [zero_ProductItem\<lparr>ChartID := 1\<rparr>, zero_ProductItem\<lparr>ChartID := 2\<rparr>]\<rparr>"

definition two_items_payload :: json where
  "two_items_payload =
     JObject [(''order_uid'', JString ''big''),
              (''items'', JArray [JObject [(''chrt_id'', JInt 1)], JObject [(''chrt_id'', JInt 2)]])]"

definition get_missing :: request where
  "get_missing = \<lparr>Method = ''GET'', order_uid = ''missing''\<rparr>"

section \<open>The durable store is all-or-nothing\<close>

lemma insert_items_Inr:
  "insert_items io i tx its = Inr tx' \<Longrightarrow>
     tx' = tx\<lparr>items := items tx @ its\<rparr> \<and> (\<forall>j<length its. \<not> io (InsertItem (i + j)))"
proof (induction its arbitrary: i tx)
  case Nil
  then show ?case by simp
next
  case (Cons item rest)
  from Cons.prems have nf: "\<not> io (InsertItem i)"
    and rec: "insert_items io (Suc i) (tx\<lparr>items := items tx @ [item]\<rparr>) rest = Inr tx'"
    by (auto split: if_splits)
  from Cons.IH [OF rec] have eq: "tx' = tx\<lparr>items := items tx @ item # rest\<rparr>"
    and later: "\<forall>j<length rest. \<not> io (InsertItem (Suc i + j))" by simp_all
  have "\<not> io (InsertItem (i + j))" if "j < length (item # rest)" for j
  proof (cases j)
    case 0
    with nf show ?thesis by simp
  next
    case (Suc k)
    with that later show ?thesis by simp
  qed
  with eq show ?case by blast
qed

lemma tx_body_Inr:
  assumes "tx_body io n t order = Inr t'"
  shows "t' = t\<lparr>delivery := delivery t @ [(n, Address order)],
               payment := payment t @ [Payment order],
               orders := orders t @ [order_row_of order n],
               items := items t @ Products order\<rparr>"
    and "\<not> io InsertDelivery" and "\<not> io InsertPayment" and "\<not> io InsertOrder"
    and "\<forall>j<length (Products order). \<not> io (InsertItem j)"
  using assms
  by (auto simp: tx_body_def insert_delivery_def insert_payment_def insert_order_def
      split: sum.splits if_splits dest!: insert_items_Inr)

text \<open>
  Claim C4. \<^verbatim>\<open>dbService.AddOrder\<close> is all-or-nothing. Whenever it returns an error, the
  tables are those it started from: no row of the call is visible. When it returns
  success, the delivery row, the payment row, the order row and one row for each item
  have been added, and neither \<^verbatim>\<open>Begin\<close>, nor one of the inserts, nor \<^verbatim>\<open>Commit\<close> has
  failed; so a failure of any of these steps makes the call return an error.
\<close>

theorem dbAddOrder_all_or_nothing:
  assumes "dbAddOrder io s order = (s', r)"
  shows "(\<forall>e. r = Inl e \<longrightarrow> rows s' = rows s) \<and>
         (r = Inr () \<longrightarrow>
            rows s' = (rows s)\<lparr>delivery := delivery (rows s) @ [(Suc (delivery_id_seq s), Address order)],
                               payment := payment (rows s) @ [Payment order],
                               orders := orders (rows s) @ [order_row_of order (Suc (delivery_id_seq s))],
                               items := items (rows s) @ Products order\<rparr> \<and>
            \<not> io TxBegin \<and> \<not> io InsertDelivery \<and> \<not> io InsertPayment \<and> \<not> io InsertOrder \<and>
            (\<forall>j<length (Products order). \<not> io (InsertItem j)) \<and> \<not> io TxCommit)"
proof -
  have failed: "rows s' = rows s" if "r = Inl e" for e
    using assms that by (auto simp: dbAddOrder_def Let_def split: if_splits sum.splits)
  have committed: ?thesis if ok: "r = Inr ()"
  proof -
    from assms ok obtain t where body: "tx_body io (Suc (delivery_id_seq s)) (rows s) order = Inr t"
      and nb: "\<not> io TxBegin" and nc: "\<not> io TxCommit" and s': "rows s' = t"
      by (auto simp: dbAddOrder_def Let_def split: if_splits sum.splits)
    from tx_body_Inr [OF body] s' nb nc ok show ?thesis by simp
  qed
  show ?thesis
  proof (cases r)
    case (Inl e)
    with failed show ?thesis by simp
  next
    case (Inr u)
    with committed show ?thesis by simp
  qed
qed

text \<open>
  Witness for C4: the sample order on the empty store, once with the insert of its item
  failing (nothing is left behind) and once with no failure (four rows).
\<close>

theorem dbAddOrder_all_or_nothing_witness:
  "dbAddOrder (\<lambda>st. st = InsertItem 0) empty_db test_order
     = (empty_db\<lparr>delivery_id_seq := 1\<rparr>, Inl (IOError (InsertItem 0))) \<and>
   rows (empty_db\<lparr>delivery_id_seq := 1\<rparr>) = rows empty_db \<and>
   snd (dbAddOrder no_faults empty_db test_order) = Inr () \<and>
   rows (fst (dbAddOrder no_faults empty_db test_order))
     = \<lparr>delivery = [(1, Address test_order)], payment = [Payment test_order],
        items = Products test_order, orders = [order_row_of test_order 1],
        order_item_conn = []\<rparr>"
proof -
  have bad: "dbAddOrder (\<lambda>st. st = InsertItem 0) empty_db test_order
     = (empty_db\<lparr>delivery_id_seq := 1\<rparr>, Inl (IOError (InsertItem 0)))"
    by (simp add: dbAddOrder_def tx_body_def insert_delivery_def insert_payment_def
        insert_order_def empty_db_def test_order_def)
  have good: "snd (dbAddOrder no_faults empty_db test_order) = Inr ()"
    by (simp add: dbAddOrder_def tx_body_def insert_delivery_def insert_payment_def
        insert_order_def empty_db_def test_order_def no_faults_def)
  have run: "dbAddOrder no_faults empty_db test_order
     = (fst (dbAddOrder no_faults empty_db test_order), Inr ())"
    using good by (metis prod.collapse)
  from dbAddOrder_all_or_nothing [OF bad] dbAddOrder_all_or_nothing [OF run] bad good
  show ?thesis by (simp add: empty_db_def)
qed

section \<open>The cache layer\<close>

lemma dbGetOrder_no_row:
  assumes "\<not> io SelectOrder" and "uid \<notin> set (map r_order_uid (orders (rows d)))"
  shows "dbGetOrder io d uid = Inl ErrNoRows"
proof -
  from assms(2) have "find (\<lambda>r. r_order_uid r = uid) (orders (rows d)) = None"
    by (auto simp: find_None_iff)
  with assms(1) show ?thesis by (simp add: dbGetOrder_def)
qed

lemma dbGetOrder_select_fault: "io SelectOrder \<Longrightarrow> dbGetOrder io d uid = Inl (IOError SelectOrder)"
  by (simp add: dbGetOrder_def)

lemma GetOrder_hit: "cache_Get (cache s) uid = Some order \<Longrightarrow> GetOrder a io s uid = (s, Inr order)"
  by (simp add: GetOrder_def getFromCache_def)

lemma GetOrder_miss_Inr:
  "cache_Get (cache s) uid = None \<Longrightarrow> dbGetOrder io (db s) uid = Inr order \<Longrightarrow>
     GetOrder a io s uid =
       (s\<lparr>cache := cache_Set a (cache s) uid order,
          db_calls := db_calls s @ [CallGetOrder uid]\<rparr>, Inr order)"
  by (simp add: GetOrder_def getFromCache_def addToCache_def Let_def)

lemma GetOrder_miss_Inl:
  "cache_Get (cache s) uid = None \<Longrightarrow> dbGetOrder io (db s) uid = Inl err \<Longrightarrow>
     GetOrder a io s uid = (s\<lparr>db_calls := db_calls s @ [CallGetOrder uid]\<rparr>, Inl err)"
  by (simp add: GetOrder_def getFromCache_def Let_def)

lemma cache_Set_Stored: "cache_Get (cache_Set (Stored evicted) c key v) key = Some v"
  by (simp add: cache_Set_def cache_Get_def)

lemma stored_service_eq:
  "stored_service =
     \<lparr>cache = Map.empty,
      db = \<lparr>rows = \<lparr>delivery = [(1, Address test_order)], payment = [Payment test_order],
                    items = Products test_order, orders = [order_row_of test_order 1],
                    order_item_conn = []\<rparr>,
            delivery_id_seq = 1\<rparr>,
      maxSize = 1024, db_calls = [CallAddOrder ''b563feb7b2b84b6test'']\<rparr>"
  by (simp add: stored_service_def AddOrder_def dbAddOrder_def tx_body_def insert_delivery_def
      insert_payment_def insert_order_def empty_service_def empty_db_def test_order_def
      no_faults_def cache_Set_def Let_def)

lemma stored_service_fetch:
  "dbGetOrder no_faults (db stored_service) ''b563feb7b2b84b6test'' = Inr (test_order\<lparr>Products := []\<rparr>)"
  by (simp add: stored_service_eq dbGetOrder_def select_items_def order_row_of_def
      timestamp_column_def test_order_def no_faults_def)

text \<open>
  Claim C1, as amended. Read-after-write on the cache path: when the cache takes the \<^verbatim>\<open>Set\<close> of
  \<^verbatim>\<open>AddOrder(o)\<close> (after \<^verbatim>\<open>Wait\<close>, the settle barrier, the entry is visible), a following
  \<^verbatim>\<open>GetOrder(o.OrderID)\<close> returns \<open>o\<close> itself, whatever the store write returned, and
  without any call on the store: the service, its record of store calls included, is
  left as it was, and neither the admission nor the store faults of the read matter.
\<close>

theorem AddOrder_then_GetOrder:
  assumes "AddOrder (Stored evicted) io s order = (s1, r)"
  shows "GetOrder a' io' s1 (OrderID order) = (s1, Inr order)"
proof -
  from assms have "cache s1 = cache_Set (Stored evicted) (cache s) (OrderID order) order"
    by (auto simp: AddOrder_def Let_def split: prod.splits sum.splits)
  then have "cache_Get (cache s1) (OrderID order) = Some order"
    by (simp add: cache_Set_Stored)
  then show ?thesis by (rule GetOrder_hit)
qed

text \<open>
  Witness for C1: the sample order added to a fresh service over an empty store; the
  write succeeds, and the read is served although every store statement would fail.
\<close>

theorem AddOrder_then_GetOrder_witness:
  "snd (AddOrder (Stored []) no_faults empty_service test_order) = Inr () \<and>
   GetOrder Dropped (\<lambda>st. True) (fst (AddOrder (Stored []) no_faults empty_service test_order))
       ''b563feb7b2b84b6test''
     = (fst (AddOrder (Stored []) no_faults empty_service test_order), Inr test_order)"
proof -
  have ok: "snd (AddOrder (Stored []) no_faults empty_service test_order) = Inr ()"
    by (simp add: AddOrder_def dbAddOrder_def tx_body_def insert_delivery_def insert_payment_def
        insert_order_def empty_service_def empty_db_def test_order_def no_faults_def Let_def
        split: prod.splits)
  have run: "AddOrder (Stored []) no_faults empty_service test_order
     = (fst (AddOrder (Stored []) no_faults empty_service test_order), Inr ())"
    using ok by (metis prod.collapse)
  have uid: "OrderID test_order = ''b563feb7b2b84b6test''"
    by (simp add: test_order_def)
  from AddOrder_then_GetOrder [OF run, of Dropped "\<lambda>st. True"] ok uid
  show ?thesis by simp
qed

text \<open>
  Counterexample to C1 as stated: \<^verbatim>\<open>AddOrder\<close> does not look at what \<^verbatim>\<open>Set\<close> returns, and
  the cache may drop a \<^verbatim>\<open>Set\<close>. The sample order is added to a fresh service and the
  write succeeds while the cache drops the entry. The read that follows goes to the store:
  it returns what the store gives for the key, which is not the order that was added, and
  it fails when the store is down.
\<close>

theorem AddOrder_then_GetOrder_counterexample:
  "snd (AddOrder Dropped no_faults empty_service test_order) = Inr () \<and>
   snd (GetOrder (Stored []) no_faults
          (fst (AddOrder Dropped no_faults empty_service test_order)) (OrderID test_order))
     = Inr (test_order\<lparr>Products := []\<rparr>) \<and>
   test_order\<lparr>Products := []\<rparr> \<noteq> test_order \<and>
   db_calls (fst (GetOrder (Stored []) no_faults
          (fst (AddOrder Dropped no_faults empty_service test_order)) (OrderID test_order)))
     = [CallAddOrder (OrderID test_order), CallGetOrder (OrderID test_order)] \<and>
   snd (GetOrder (Stored []) store_down
          (fst (AddOrder Dropped no_faults empty_service test_order)) (OrderID test_order))
     = Inl (IOError SelectOrder)"
proof -
  have ok: "snd (AddOrder Dropped no_faults empty_service test_order) = Inr ()"
    by (simp add: AddOrder_def dbAddOrder_def tx_body_def insert_delivery_def insert_payment_def
        insert_order_def empty_service_def empty_db_def test_order_def no_faults_def Let_def
        split: prod.splits)
  have uid: "OrderID test_order = ''b563feb7b2b84b6test''"
    by (simp add: test_order_def)
  have miss: "cache_Get (cache stored_service) ''b563feb7b2b84b6test'' = None"
    by (simp add: stored_service_eq cache_Get_def)
  have calls: "db_calls stored_service = [CallAddOrder ''b563feb7b2b84b6test'']"
    by (simp add: stored_service_eq)
  have differ: "test_order\<lparr>Products := []\<rparr> \<noteq> test_order"
  proof
    assume "test_order\<lparr>Products := []\<rparr> = test_order"
    then have "Products (test_order\<lparr>Products := []\<rparr>) = Products test_order"
      by simp
    then show False
      by (simp add: test_order_def)
  qed
  have down: "dbGetOrder store_down (db stored_service) ''b563feb7b2b84b6test''
      = Inl (IOError SelectOrder)"
    by (rule dbGetOrder_select_fault) (simp add: store_down_def)
  from ok differ calls GetOrder_miss_Inr [OF miss stored_service_fetch, of "Stored []"]
    GetOrder_miss_Inl [OF miss down, of "Stored []"]
  show ?thesis
    by (simp add: uid stored_service_def [symmetric])
qed

text \<open>
  Claim C2. \<^verbatim>\<open>AddOrder\<close> of the cache layer first hands the order to the cache and then
  to the store. Its result is the result of the store write, success or the store's own
  error; the cache holds what the \<^verbatim>\<open>Set\<close> left there whatever that result is, so after a
  failed write an entry the cache has taken is still served.
\<close>

theorem AddOrder_write_through:
  assumes "AddOrder a io s order = (s', r)"
  shows "cache s' = cache_Set a (cache s) (OrderID order) order \<and>
         (db s', r) = dbAddOrder io (db s) order \<and>
         db_calls s' = db_calls s @ [CallAddOrder (OrderID order)] \<and>
         (r = Inr () \<longleftrightarrow> snd (dbAddOrder io (db s) order) = Inr ()) \<and>
         (\<forall>err. snd (dbAddOrder io (db s) order) = Inl err \<longrightarrow>
            r = Inl err \<and>
            (\<forall>evicted. a = Stored evicted \<longrightarrow> cache_Get (cache s') (OrderID order) = Some order))"
  using assms
  by (auto simp: AddOrder_def Let_def cache_Set_def cache_Get_def split: prod.splits sum.splits)

text \<open>
  Witness for C2: the commit fails; the error comes back, the store has no row, and the
  order is in the cache.
\<close>

theorem AddOrder_write_through_witness:
  "snd (AddOrder (Stored []) (\<lambda>st. st = TxCommit) empty_service test_order) = Inl (IOError TxCommit) \<and>
   rows (db (fst (AddOrder (Stored []) (\<lambda>st. st = TxCommit) empty_service test_order))) = rows empty_db \<and>
   cache_Get (cache (fst (AddOrder (Stored []) (\<lambda>st. st = TxCommit) empty_service test_order)))
     (OrderID test_order) = Some test_order"
proof -
  let ?io = "\<lambda>st. st = TxCommit"
  have store: "dbAddOrder ?io empty_db test_order
     = (empty_db\<lparr>delivery_id_seq := 1\<rparr>, Inl (IOError TxCommit))"
    by (simp add: dbAddOrder_def tx_body_def insert_delivery_def insert_payment_def
        insert_order_def empty_db_def test_order_def)
  have d: "db empty_service = empty_db"
    by (simp add: empty_service_def)
  have run: "AddOrder (Stored []) ?io empty_service test_order
     = (fst (AddOrder (Stored []) ?io empty_service test_order),
        snd (AddOrder (Stored []) ?io empty_service test_order))"
    by simp
  from AddOrder_write_through [OF run] store d
  show ?thesis by (auto simp: empty_db_def)
qed

text \<open>
  Claim C3. \<^verbatim>\<open>GetOrder\<close> of the cache layer. A key present in the cache is answered
  from the cache and the service is unchanged: no call on the store. On a miss the store
  is asked once. An order it returns is handed to the cache under the key and returned.
  An error it returns is returned as it is and the cache is not touched; that error is
  \<^verbatim>\<open>ErrNoRows\<close> (not found) when no row of \<^verbatim>\<open>orders\<close> has the key, and the I/O error when
  the query itself fails.
\<close>

theorem GetOrder_cache_aside:
  "(\<forall>order. cache_Get (cache s) uid = Some order \<longrightarrow> GetOrder a io s uid = (s, Inr order)) \<and>
   (cache_Get (cache s) uid = None \<longrightarrow>
      (\<forall>order. dbGetOrder io (db s) uid = Inr order \<longrightarrow>
         GetOrder a io s uid =
           (s\<lparr>cache := cache_Set a (cache s) uid order,
              db_calls := db_calls s @ [CallGetOrder uid]\<rparr>, Inr order)) \<and>
      (\<forall>err. dbGetOrder io (db s) uid = Inl err \<longrightarrow>
         GetOrder a io s uid = (s\<lparr>db_calls := db_calls s @ [CallGetOrder uid]\<rparr>, Inl err)) \<and>
      (\<not> io SelectOrder \<and> uid \<notin> set (map r_order_uid (orders (rows (db s)))) \<longrightarrow>
         snd (GetOrder a io s uid) = Inl ErrNoRows) \<and>
      (io SelectOrder \<longrightarrow> snd (GetOrder a io s uid) = Inl (IOError SelectOrder)))"
proof -
  have nf: "snd (GetOrder a io s uid) = Inl ErrNoRows"
    if "cache_Get (cache s) uid = None" "\<not> io SelectOrder"
       "uid \<notin> set (map r_order_uid (orders (rows (db s))))"
    using GetOrder_miss_Inl [OF that(1) dbGetOrder_no_row [of io uid "db s", OF that(2,3)]] by simp
  have se: "snd (GetOrder a io s uid) = Inl (IOError SelectOrder)"
    if "cache_Get (cache s) uid = None" "io SelectOrder"
    using GetOrder_miss_Inl [OF that(1) dbGetOrder_select_fault [of io "db s" uid, OF that(2)]] by simp
  show ?thesis
    using GetOrder_hit GetOrder_miss_Inr GetOrder_miss_Inl nf se by blast
qed

text \<open>
  Witness for C3 on a service whose store holds the sample order and whose cache is
  empty: the key of the order is fetched from the store and cached, then served from the
  cache; an unknown key gives \<^verbatim>\<open>ErrNoRows\<close>, a failing query its I/O error, and in both
  cases the cache stays empty for the key.
\<close>

theorem GetOrder_cache_aside_witness:
  "GetOrder (Stored []) no_faults stored_service ''b563feb7b2b84b6test''
     = (stored_service\<lparr>cache := [''b563feb7b2b84b6test'' \<mapsto> test_order\<lparr>Products := []\<rparr>],
          db_calls := db_calls stored_service @ [CallGetOrder ''b563feb7b2b84b6test'']\<rparr>,
        Inr (test_order\<lparr>Products := []\<rparr>)) \<and>
   GetOrder Dropped (\<lambda>st. True)
       (stored_service\<lparr>cache := [''b563feb7b2b84b6test'' \<mapsto> test_order\<lparr>Products := []\<rparr>]\<rparr>)
       ''b563feb7b2b84b6test''
     = (stored_service\<lparr>cache := [''b563feb7b2b84b6test'' \<mapsto> test_order\<lparr>Products := []\<rparr>]\<rparr>,
        Inr (test_order\<lparr>Products := []\<rparr>)) \<and>
   GetOrder (Stored []) no_faults stored_service ''missing''
     = (stored_service\<lparr>db_calls := db_calls stored_service @ [CallGetOrder ''missing'']\<rparr>,
        Inl ErrNoRows) \<and>
   snd (GetOrder (Stored []) (\<lambda>st. True) stored_service ''b563feb7b2b84b6test'')
     = Inl (IOError SelectOrder)"
proof -
  let ?uid = "''b563feb7b2b84b6test''"
  let ?got = "test_order\<lparr>Products := []\<rparr>"
  let ?warm = "stored_service\<lparr>cache := [?uid \<mapsto> ?got]\<rparr>"
  have miss: "cache_Get (cache stored_service) uid = None" for uid
    by (simp add: stored_service_eq cache_Get_def)
  have hit: "cache_Get (cache ?warm) ?uid = Some ?got"
    by (simp add: cache_Get_def)
  have none: "dbGetOrder no_faults (db stored_service) ''missing'' = Inl ErrNoRows"
    by (simp add: stored_service_eq dbGetOrder_def order_row_of_def test_order_def no_faults_def)
  have set: "cache_Set (Stored []) (cache stored_service) ?uid ?got = [?uid \<mapsto> ?got]"
    by (simp add: stored_service_eq cache_Set_def)
  have c1: "GetOrder (Stored []) no_faults stored_service ?uid
     = (stored_service\<lparr>cache := [?uid \<mapsto> ?got],
          db_calls := db_calls stored_service @ [CallGetOrder ?uid]\<rparr>, Inr ?got)"
    using GetOrder_cache_aside [of stored_service ?uid "Stored []" no_faults]
      miss stored_service_fetch set by simp
  have c2: "GetOrder Dropped (\<lambda>st. True) ?warm ?uid = (?warm, Inr ?got)"
    using GetOrder_cache_aside [of ?warm ?uid Dropped "\<lambda>st. True"] hit by simp
  have c3: "GetOrder (Stored []) no_faults stored_service ''missing''
     = (stored_service\<lparr>db_calls := db_calls stored_service @ [CallGetOrder ''missing'']\<rparr>,
        Inl ErrNoRows)"
    using GetOrder_cache_aside [of stored_service "''missing''" "Stored []" no_faults]
      miss none by simp
  have c4: "snd (GetOrder (Stored []) (\<lambda>st. True) stored_service ?uid) = Inl (IOError SelectOrder)"
    using GetOrder_cache_aside [of stored_service ?uid "Stored []" "\<lambda>st. True"] miss by simp
  from c1 c2 c3 c4 show ?thesis by blast
qed

section \<open>Warm-up\<close>

lemma warm_frame:
  "db (warm adm io s ids) = db s \<and> maxSize (warm adm io s ids) = maxSize s \<and>
   db_calls (warm adm io s ids) = db_calls s @ map CallGetOrder ids"
  by (induction ids arbitrary: s) (auto simp: Let_def split: sum.splits)

lemma warm_cache_sound:
  "cache (warm adm io s ids) k = Some v \<Longrightarrow>
     cache s k = Some v \<or> (k \<in> set ids \<and> dbGetOrder (io k) (db s) k = Inr v)"
proof (induction ids arbitrary: s)
  case Nil
  then show ?case by simp
next
  case (Cons i ids)
  let ?s1 = "s\<lparr>db_calls := db_calls s @ [CallGetOrder i]\<rparr>"
  show ?case
  proof (cases "dbGetOrder (io i) (db s) i")
    case (Inl err)
    with Cons.prems have "cache (warm adm io ?s1 ids) k = Some v" by (simp add: Let_def)
    from Cons.IH [OF this] show ?thesis by auto
  next
    case (Inr order)
    let ?s2 = "?s1\<lparr>cache := cache_Set (adm i) (cache ?s1) i order\<rparr>"
    from Inr Cons.prems have "cache (warm adm io ?s2 ids) k = Some v" by (simp add: Let_def)
    from Cons.IH [OF this] Inr show ?thesis
      by (auto simp: cache_Set_def split: admission.splits if_splits)
  qed
qed

lemma warm_keeps:
  "cache s k = Some v \<Longrightarrow> (\<forall>j\<in>set ids. \<forall>e. adm j = Stored e \<longrightarrow> k \<notin> set e) \<Longrightarrow>
   (k \<in> set ids \<longrightarrow> dbGetOrder (io k) (db s) k = Inr v) \<Longrightarrow>
     cache (warm adm io s ids) k = Some v"
proof (induction ids arbitrary: s)
  case Nil
  then show ?case by simp
next
  case (Cons i ids)
  let ?s1 = "s\<lparr>db_calls := db_calls s @ [CallGetOrder i]\<rparr>"
  show ?case
  proof (cases "dbGetOrder (io i) (db s) i")
    case (Inl err)
    have "cache (warm adm io ?s1 ids) k = Some v"
      using Cons.prems Inl by (intro Cons.IH) auto
    with Inl show ?thesis by (simp add: Let_def)
  next
    case (Inr order)
    let ?s2 = "?s1\<lparr>cache := cache_Set (adm i) (cache ?s1) i order\<rparr>"
    have "cache ?s2 k = Some v"
      using Cons.prems Inr by (auto simp: cache_Set_def split: admission.splits)
    then have "cache (warm adm io ?s2 ids) k = Some v"
      using Cons.prems by (intro Cons.IH) auto
    with Inr show ?thesis by (simp add: Let_def)
  qed
qed

lemma warm_cache_complete:
  "k \<in> set ids \<Longrightarrow> dbGetOrder (io k) (db s) k = Inr v \<Longrightarrow> adm k = Stored ev \<Longrightarrow>
   (\<forall>j\<in>set ids. \<forall>e. adm j = Stored e \<longrightarrow> k \<notin> set e) \<Longrightarrow>
     cache (warm adm io s ids) k = Some v"
proof (induction ids arbitrary: s)
  case Nil
  then show ?case by simp
next
  case (Cons i ids)
  let ?s1 = "s\<lparr>db_calls := db_calls s @ [CallGetOrder i]\<rparr>"
  show ?case
  proof (cases "i = k")
    case True
    let ?s2 = "?s1\<lparr>cache := cache_Set (adm k) (cache ?s1) k v\<rparr>"
    have "cache ?s2 k = Some v" using Cons.prems by (simp add: cache_Set_def)
    then have "cache (warm adm io ?s2 ids) k = Some v"
      using Cons.prems by (intro warm_keeps) auto
    with True Cons.prems show ?thesis by (simp add: Let_def)
  next
    case False
    with Cons.prems have mem: "k \<in> set ids" by simp
    show ?thesis
    proof (cases "dbGetOrder (io i) (db s) i")
      case (Inl err)
      have "cache (warm adm io ?s1 ids) k = Some v"
        using Cons.prems mem by (intro Cons.IH) auto
      with Inl show ?thesis by (simp add: Let_def)
    next
      case (Inr order)
      let ?s2 = "?s1\<lparr>cache := cache_Set (adm i) (cache ?s1) i order\<rparr>"
      have "cache (warm adm io ?s2 ids) k = Some v"
        using Cons.prems mem by (intro Cons.IH) auto
      with Inr show ?thesis by (simp add: Let_def)
    qed
  qed
qed

lemma scan_ids_Inr: "scan_ids io i xs = Inr ids \<Longrightarrow> length ids \<le> length xs"
  by (induction xs arbitrary: i ids) (auto split: if_splits sum.splits)

lemma dbGetRecentOrderIDs_length:
  "dbGetRecentOrderIDs io d n = Inr ids \<Longrightarrow> length ids \<le> n"
  by (auto simp: dbGetRecentOrderIDs_def split: if_splits dest!: scan_ids_Inr)

text \<open>
  Claim C9. Construction of the cache service, once the cache itself is built. The
  warm-up asks the store for the identifiers of the \<open>n\<close> most recent orders, \<open>n\<close> being
  the capacity, and gets at most \<open>n\<close>. If that call fails, construction fails with its
  error. If it succeeds, construction succeeds whatever the fetches of the single orders
  return: each identifier is fetched once, a failed fetch leaves no entry, and when
  construction returns every fetched order that the cache has taken (and that no other
  admission of the warm-up has evicted) is in the cache. Nothing else is in the cache.
\<close>

theorem NewCacheService_warm_up:
  "(\<forall>err. dbGetRecentOrderIDs io0 d n = Inl err \<longrightarrow>
      NewCacheService None adm io0 io n d = Inl (WarmUpError err)) \<and>
   (\<forall>ids. dbGetRecentOrderIDs io0 d n = Inr ids \<longrightarrow>
      length ids \<le> n \<and>
      (\<exists>s. NewCacheService None adm io0 io n d = Inr s \<and>
           db s = d \<and> maxSize s = n \<and>
           db_calls s = CallGetRecentOrderIDs n # map CallGetOrder ids \<and>
           (\<forall>k v. cache_Get (cache s) k = Some v \<longrightarrow>
                    k \<in> set ids \<and> dbGetOrder (io k) d k = Inr v) \<and>
           (\<forall>k\<in>set ids. \<forall>v ev. dbGetOrder (io k) d k = Inr v \<and> adm k = Stored ev \<and>
                    (\<forall>j\<in>set ids. \<forall>e. adm j = Stored e \<longrightarrow> k \<notin> set e) \<longrightarrow>
                    cache_Get (cache s) k = Some v)))"
proof (intro conjI allI impI)
  fix err assume "dbGetRecentOrderIDs io0 d n = Inl err"
  then show "NewCacheService None adm io0 io n d = Inl (WarmUpError err)"
    by (simp add: NewCacheService_def loadCache_def Let_def)
next
  fix ids assume ids: "dbGetRecentOrderIDs io0 d n = Inr ids"
  then show "length ids \<le> n" by (rule dbGetRecentOrderIDs_length)
  let ?init = "\<lparr>cache = Map.empty, db = d, maxSize = n, db_calls = [CallGetRecentOrderIDs n]\<rparr>"
  let ?fin = "warm adm io ?init ids"
  have res: "NewCacheService None adm io0 io n d = Inr ?fin"
    using ids by (simp add: NewCacheService_def loadCache_def Let_def)
  have frame: "db ?fin = d" "maxSize ?fin = n"
    "db_calls ?fin = CallGetRecentOrderIDs n # map CallGetOrder ids"
    using warm_frame [of adm io ?init ids] by simp_all
  have sound: "k \<in> set ids \<and> dbGetOrder (io k) d k = Inr v"
    if "cache_Get (cache ?fin) k = Some v" for k v
    using warm_cache_sound [of adm io ?init ids k v] that by (simp add: cache_Get_def)
  have complete: "cache_Get (cache ?fin) k = Some v"
    if "k \<in> set ids" "dbGetOrder (io k) d k = Inr v" "adm k = Stored ev"
       "\<forall>j\<in>set ids. \<forall>e. adm j = Stored e \<longrightarrow> k \<notin> set e" for k v ev
    using warm_cache_complete [of k ids io ?init v adm ev] that by (simp add: cache_Get_def)
  show "\<exists>s. NewCacheService None adm io0 io n d = Inr s \<and>
           db s = d \<and> maxSize s = n \<and>
           db_calls s = CallGetRecentOrderIDs n # map CallGetOrder ids \<and>
           (\<forall>k v. cache_Get (cache s) k = Some v \<longrightarrow>
                    k \<in> set ids \<and> dbGetOrder (io k) d k = Inr v) \<and>
           (\<forall>k\<in>set ids. \<forall>v ev. dbGetOrder (io k) d k = Inr v \<and> adm k = Stored ev \<and>
                    (\<forall>j\<in>set ids. \<forall>e. adm j = Stored e \<longrightarrow> k \<notin> set e) \<longrightarrow>
                    cache_Get (cache s) k = Some v)"
    using res frame sound complete by blast
qed

text \<open>
  Witness for C9 over the store that holds the sample order: construction fails when the
  list of identifiers cannot be read; it succeeds with the order in the cache when the
  order is fetched, and succeeds with an empty cache when the fetch of the order fails.
\<close>

theorem NewCacheService_warm_up_witness:
  "NewCacheService None (\<lambda>k. Stored []) (\<lambda>st. True) (\<lambda>k. no_faults) 1024 (db stored_service)
     = Inl (WarmUpError (IOError SelectRecentIDs)) \<and>
   (case NewCacheService None (\<lambda>k. Stored []) no_faults (\<lambda>k. no_faults) 1024 (db stored_service) of
      Inl err \<Rightarrow> False
    | Inr s \<Rightarrow> cache_Get (cache s) ''b563feb7b2b84b6test'' = Some (test_order\<lparr>Products := []\<rparr>)) \<and>
   (case NewCacheService None (\<lambda>k. Stored []) no_faults (\<lambda>k st. True) 1024 (db stored_service) of
      Inl err \<Rightarrow> False
    | Inr s \<Rightarrow> cache_Get (cache s) ''b563feb7b2b84b6test'' = None)"
proof -
  let ?d = "db stored_service"
  let ?uid = "''b563feb7b2b84b6test''"
  let ?adm = "\<lambda>k::string. Stored []"
  have bad: "dbGetRecentOrderIDs (\<lambda>st. True) ?d 1024 = Inl (IOError SelectRecentIDs)"
    by (simp add: dbGetRecentOrderIDs_def)
  have ids: "dbGetRecentOrderIDs no_faults ?d 1024 = Inr [?uid]"
    by (simp add: dbGetRecentOrderIDs_def stored_service_eq order_row_of_def test_order_def
        no_faults_def)
  have fails: "dbGetOrder (\<lambda>st. True) ?d ?uid = Inl (IOError SelectOrder)"
    by (simp add: dbGetOrder_def)
  have c1: "NewCacheService None ?adm (\<lambda>st. True) (\<lambda>k. no_faults) 1024 ?d
     = Inl (WarmUpError (IOError SelectRecentIDs))"
    using NewCacheService_warm_up [of "\<lambda>st. True" ?d 1024 ?adm "\<lambda>k. no_faults"] bad by simp
  from NewCacheService_warm_up [of no_faults ?d 1024 ?adm "\<lambda>k. no_faults"] ids
  obtain s where s: "NewCacheService None ?adm no_faults (\<lambda>k. no_faults) 1024 ?d = Inr s"
    and got: "\<forall>k\<in>set [?uid]. \<forall>v ev. dbGetOrder no_faults ?d k = Inr v \<and> ?adm k = Stored ev \<and>
                (\<forall>j\<in>set [?uid]. \<forall>e. ?adm j = Stored e \<longrightarrow> k \<notin> set e) \<longrightarrow>
                cache_Get (cache s) k = Some v"
    by blast
  from got stored_service_fetch
  have "cache_Get (cache s) ?uid = Some (test_order\<lparr>Products := []\<rparr>)" by simp
  with s have c2: "case NewCacheService None ?adm no_faults (\<lambda>k. no_faults) 1024 ?d of
      Inl err \<Rightarrow> False
    | Inr s \<Rightarrow> cache_Get (cache s) ?uid = Some (test_order\<lparr>Products := []\<rparr>)"
    by simp
  from NewCacheService_warm_up [of no_faults ?d 1024 ?adm "\<lambda>k st. True"] ids
  obtain s' where s': "NewCacheService None ?adm no_faults (\<lambda>k st. True) 1024 ?d = Inr s'"
    and only: "\<forall>k v. cache_Get (cache s') k = Some v \<longrightarrow>
                 k \<in> set [?uid] \<and> dbGetOrder (\<lambda>st. True) ?d k = Inr v"
    by blast
  have "cache_Get (cache s') ?uid = None"
  proof (cases "cache_Get (cache s') ?uid")
    case None
    then show ?thesis .
  next
    case (Some v)
    with only have "dbGetOrder (\<lambda>st. True) ?d ?uid = Inr v" by blast
    with fails show ?thesis by simp
  qed
  with s' have c3: "case NewCacheService None ?adm no_faults (\<lambda>k st. True) 1024 ?d of
      Inl err \<Rightarrow> False
    | Inr s \<Rightarrow> cache_Get (cache s) ?uid = None"
    by simp
  from c1 c2 c3 show ?thesis by blast
qed

section \<open>Characters and decimal fields\<close>


lemma of_char_digit_char: "d < 10 \<Longrightarrow> (of_char (digit_char d) :: nat) = 48 + d"
  by (simp add: digit_char_def)

lemma isDigit_digit_char: "d < 10 \<Longrightarrow> isDigit (digit_char d)"
  by (simp add: isDigit_def of_char_digit_char)

lemma digit_val_digit_char: "d < 10 \<Longrightarrow> digit_val (digit_char d) = d"
  by (simp add: digit_val_def of_char_digit_char)

lemma digit_char_0: "digit_char 0 = CHR ''0''"
  by (simp add: digit_char_def char_of_eq_iff)

lemma plain_digit_char: "d < 10 \<Longrightarrow> plain_char (digit_char d)"
proof -
  assume d: "d < 10"
  have "digit_char d \<noteq> CHR 0x22"
  proof
    assume "digit_char d = CHR 0x22"
    then have "(of_char (digit_char d) :: nat) = of_char (CHR 0x22)" by simp
    with d show False by (simp add: of_char_digit_char)
  qed
  moreover have "digit_char d \<noteq> CHR 0x5C"
  proof
    assume "digit_char d = CHR 0x5C"
    then have "(of_char (digit_char d) :: nat) = of_char (CHR 0x5C)" by simp
    with d show False by (simp add: of_char_digit_char)
  qed
  ultimately show ?thesis using d by (simp add: plain_char_def of_char_digit_char)
qed

lemma digit_char_neq_quote: "d < 10 \<Longrightarrow> digit_char d \<noteq> CHR 0x22"
  using plain_digit_char [of d] by (simp add: plain_char_def)

lemma decimal_1: "n < 10 \<Longrightarrow> decimal n = [digit_char n]"
  by (subst decimal.simps) simp

lemma decimal_2: "10 \<le> n \<Longrightarrow> n < 100 \<Longrightarrow> decimal n = [digit_char (n div 10), digit_char (n mod 10)]"
  by (subst decimal.simps) (simp add: decimal_1)

lemma decimal_3:
  "100 \<le> n \<Longrightarrow> n < 1000 \<Longrightarrow>
     decimal n = [digit_char (n div 100), digit_char (n div 10 mod 10), digit_char (n mod 10)]"
  by (subst decimal.simps) (simp add: decimal_2 div_mult2_eq [symmetric])

lemma decimal_4:
  "1000 \<le> n \<Longrightarrow> n < 10000 \<Longrightarrow>
     decimal n = [digit_char (n div 1000), digit_char (n div 100 mod 10),
                  digit_char (n div 10 mod 10), digit_char (n mod 10)]"
  by (subst decimal.simps) (simp add: decimal_3 div_mult2_eq [symmetric])

lemma appendInt_2:
  "n < 100 \<Longrightarrow> appendInt (int n) 2 = [digit_char (n div 10), digit_char (n mod 10)]"
proof (cases "n < 10")
  case True
  then show ?thesis by (simp add: appendInt_def decimal_1 digit_char_0)
next
  case False
  assume "n < 100"
  with False show ?thesis by (simp add: appendInt_def decimal_2)
qed

lemma replicate_3: "replicate 3 c = [c, c, c]"
  by (simp add: numeral_3_eq_3)

lemma replicate_2: "replicate 2 c = [c, c]"
  by (simp add: numeral_2_eq_2)

lemma appendInt_4:
  assumes "n < 10000"
  shows "appendInt (int n) 4 = [digit_char (n div 1000), digit_char (n div 100 mod 10),
                                digit_char (n div 10 mod 10), digit_char (n mod 10)]"
proof -
  consider "n < 10" | "10 \<le> n" "n < 100" | "100 \<le> n" "n < 1000" | "1000 \<le> n"
    by linarith
  then show ?thesis
  proof cases
    case 1
    then show ?thesis by (simp add: appendInt_def decimal_1 digit_char_0 replicate_3)
  next
    case 2
    then show ?thesis by (simp add: appendInt_def decimal_2 digit_char_0 replicate_2)
  next
    case 3
    then show ?thesis by (simp add: appendInt_def decimal_3 digit_char_0)
  next
    case 4
    with assms show ?thesis by (simp add: appendInt_def decimal_4)
  qed
qed

lemma parseUint_2:
  "a < 10 \<Longrightarrow> b < 10 \<Longrightarrow>
     parseUint [digit_char a, digit_char b] lo hi =
       (if a * 10 + b < lo \<or> hi < a * 10 + b then None else Some (a * 10 + b))"
  by (simp add: parseUint_def atoi_def isDigit_digit_char digit_val_digit_char)

lemma parseUint_4:
  "a < 10 \<Longrightarrow> b < 10 \<Longrightarrow> c < 10 \<Longrightarrow> d < 10 \<Longrightarrow>
     parseUint [digit_char a, digit_char b, digit_char c, digit_char d] lo hi =
       (if ((a * 10 + b) * 10 + c) * 10 + d < lo \<or> hi < ((a * 10 + b) * 10 + c) * 10 + d then None
        else Some (((a * 10 + b) * 10 + c) * 10 + d))"
  by (simp add: parseUint_def atoi_def isDigit_digit_char digit_val_digit_char)

section \<open>Formatting and parsing a timestamp\<close>

lemma digits_2: "n div 10 * 10 + n mod 10 = (n::nat)"
  by simp

lemma digits_4:
  "((n div 1000 * 10 + n div 100 mod 10) * 10 + n div 10 mod 10) * 10 + n mod 10 = (n::nat)"
proof -
  have a: "n div 1000 = n div 100 div 10" and b: "n div 100 = n div 10 div 10"
    by (simp_all add: div_mult2_eq [symmetric])
  have "n div 100 div 10 * 10 + n div 100 mod 10 = n div 100" by simp
  with a have "n div 1000 * 10 + n div 100 mod 10 = n div 10 div 10" using b by simp
  then have "(n div 1000 * 10 + n div 100 mod 10) * 10 + n div 10 mod 10 = n div 10" by simp
  then show ?thesis by simp
qed

lemma parseRFC3339_I:
  assumes "19 \<le> length s"
    and "parseUint (slice s 0 4) 0 9999 = Some year"
    and "parseUint (slice s 5 7) 1 12 = Some month"
    and "parseUint (slice s 8 10) 1 (daysIn month year) = Some day"
    and "parseUint (slice s 11 13) 0 23 = Some hour"
    and "parseUint (slice s 14 16) 0 59 = Some minute"
    and "parseUint (slice s 17 19) 0 59 = Some sec"
    and "s ! 4 = CHR ''-''" "s ! 7 = CHR ''-''" "s ! 10 = CHR ''T''" "s ! 13 = CHR '':''"
      "s ! 16 = CHR '':''"
    and "parse_fraction (drop 19 s) = (ns, rest)"
    and "parse_zone rest = Some off"
  shows "parseRFC3339 s =
           Some \<lparr>Year = int year, Month = month, Day = day, Hour = hour, Minute = minute,
                 Second = sec, Nanosecond = ns, ZoneOffset = off\<rparr>"
  using assms by (simp add: parseRFC3339_def)

lemma parseUint_2_Some:
  "a < 10 \<Longrightarrow> b < 10 \<Longrightarrow> lo \<le> a * 10 + b \<Longrightarrow> a * 10 + b \<le> hi \<Longrightarrow>
     parseUint [digit_char a, digit_char b] lo hi = Some (a * 10 + b)"
  by (simp add: parseUint_2)

lemma parseUint_4_Some:
  "a < 10 \<Longrightarrow> b < 10 \<Longrightarrow> c < 10 \<Longrightarrow> d < 10 \<Longrightarrow> ((a * 10 + b) * 10 + c) * 10 + d \<le> hi \<Longrightarrow>
     parseUint [digit_char a, digit_char b, digit_char c, digit_char d] 0 hi =
       Some (((a * 10 + b) * 10 + c) * 10 + d)"
  by (simp add: parseUint_4)

lemma parseRFC3339_digits:
  assumes d: "y1 < 10" "y2 < 10" "y3 < 10" "y4 < 10" "m1 < 10" "m2 < 10" "d1 < 10" "d2 < 10"
      "h1 < 10" "h2 < 10" "i1 < 10" "i2 < 10" "s1 < 10" "s2 < 10"
    and r: "((y1 * 10 + y2) * 10 + y3) * 10 + y4 \<le> 9999"
      "1 \<le> m1 * 10 + m2" "m1 * 10 + m2 \<le> 12" "1 \<le> d1 * 10 + d2"
      "d1 * 10 + d2 \<le> daysIn (m1 * 10 + m2) (((y1 * 10 + y2) * 10 + y3) * 10 + y4)"
      "h1 * 10 + h2 \<le> 23" "i1 * 10 + i2 \<le> 59" "s1 * 10 + s2 \<le> 59"
    and z: "parse_fraction z = (0, z)" "parse_zone z = Some off"
  shows "parseRFC3339
           ([digit_char y1, digit_char y2, digit_char y3, digit_char y4, CHR ''-'',
             digit_char m1, digit_char m2, CHR ''-'', digit_char d1, digit_char d2, CHR ''T'',
             digit_char h1, digit_char h2, CHR '':'', digit_char i1, digit_char i2, CHR '':'',
             digit_char s1, digit_char s2] @ z)
         = Some \<lparr>Year = int (((y1 * 10 + y2) * 10 + y3) * 10 + y4), Month = m1 * 10 + m2,
                 Day = d1 * 10 + d2, Hour = h1 * 10 + h2, Minute = i1 * 10 + i2,
                 Second = s1 * 10 + s2, Nanosecond = 0, ZoneOffset = off\<rparr>"
    (is "parseRFC3339 ?s = _")
proof (rule parseRFC3339_I)
  show "19 \<le> length ?s" by simp
  have "slice ?s 0 4 = [digit_char y1, digit_char y2, digit_char y3, digit_char y4]"
    by (simp add: slice_def)
  then show "parseUint (slice ?s 0 4) 0 9999 = Some (((y1 * 10 + y2) * 10 + y3) * 10 + y4)"
    using parseUint_4_Some [OF d(1-4) r(1)] by simp
  have "slice ?s 5 7 = [digit_char m1, digit_char m2]"
    by (simp add: slice_def)
  then show "parseUint (slice ?s 5 7) 1 12 = Some (m1 * 10 + m2)"
    using parseUint_2_Some [OF d(5,6) r(2,3)] by simp
  have "slice ?s 8 10 = [digit_char d1, digit_char d2]"
    by (simp add: slice_def)
  then show "parseUint (slice ?s 8 10) 1
       (daysIn (m1 * 10 + m2) (((y1 * 10 + y2) * 10 + y3) * 10 + y4)) = Some (d1 * 10 + d2)"
    using parseUint_2_Some [OF d(7,8) r(4,5)] by simp
  have "slice ?s 11 13 = [digit_char h1, digit_char h2]"
    by (simp add: slice_def)
  then show "parseUint (slice ?s 11 13) 0 23 = Some (h1 * 10 + h2)"
    using parseUint_2_Some [OF d(9,10) _ r(6)] by simp
  have "slice ?s 14 16 = [digit_char i1, digit_char i2]"
    by (simp add: slice_def)
  then show "parseUint (slice ?s 14 16) 0 59 = Some (i1 * 10 + i2)"
    using parseUint_2_Some [OF d(11,12) _ r(7)] by simp
  have "slice ?s 17 19 = [digit_char s1, digit_char s2]"
    by (simp add: slice_def)
  then show "parseUint (slice ?s 17 19) 0 59 = Some (s1 * 10 + s2)"
    using parseUint_2_Some [OF d(13,14) _ r(8)] by simp
  show "?s ! 4 = CHR ''-''" "?s ! 7 = CHR ''-''" "?s ! 10 = CHR ''T''" "?s ! 13 = CHR '':''"
    "?s ! 16 = CHR '':''" by simp_all
  show "parse_fraction (drop 19 ?s) = (0, z)" using z(1) by simp
  show "parse_zone z = Some off" by (rule z(2))
qed

lemma zone_text:
  assumes h: "h < 24" and m: "m < 60" and sg: "sg = CHR ''+'' \<or> sg = CHR ''-''"
  shows "parse_fraction (sg # appendInt (int h) 2 @ '':'' @ appendInt (int m) 2)
           = (0, sg # appendInt (int h) 2 @ '':'' @ appendInt (int m) 2)"
    and "parse_zone (sg # appendInt (int h) 2 @ '':'' @ appendInt (int m) 2)
           = Some (if sg = CHR ''-'' then - int ((h * 60 + m) * 60) else int ((h * 60 + m) * 60))"
proof -
  from h m have hh: "appendInt (int h) 2 = [digit_char (h div 10), digit_char (h mod 10)]"
    and mm: "appendInt (int m) 2 = [digit_char (m div 10), digit_char (m mod 10)]"
    by (simp_all add: appendInt_2)
  have dh: "h div 10 < 10" "h mod 10 < 10" and dm: "m div 10 < 10" "m mod 10 < 10"
    using h m by simp_all
  have ph: "parseUint [digit_char (h div 10), digit_char (h mod 10)] 0 23 = Some h"
    using parseUint_2_Some [OF dh, of 0 23] h by simp
  have pm: "parseUint [digit_char (m div 10), digit_char (m mod 10)] 0 59 = Some m"
    using parseUint_2_Some [OF dm, of 0 59] m by simp
  from sg have nodot: "sg \<noteq> CHR ''.''" by auto
  then show "parse_fraction (sg # appendInt (int h) 2 @ '':'' @ appendInt (int m) 2)
           = (0, sg # appendInt (int h) 2 @ '':'' @ appendInt (int m) 2)"
    by (simp add: parse_fraction_def)
  let ?s = "sg # [digit_char (h div 10), digit_char (h mod 10)] @ '':''
              @ [digit_char (m div 10), digit_char (m mod 10)]"
  have s1: "slice ?s 1 3 = [digit_char (h div 10), digit_char (h mod 10)]"
    and s2: "slice ?s 4 6 = [digit_char (m div 10), digit_char (m mod 10)]"
    by (simp_all add: slice_def)
  have notZ: "?s \<noteq> ''Z''" by simp
  have len: "length ?s = 6" by simp
  have at: "?s ! 0 = sg" "?s ! 3 = CHR '':''" by simp_all
  have "parse_zone ?s
     = Some (if sg = CHR ''-'' then - int ((h * 60 + m) * 60) else int ((h * 60 + m) * 60))"
    unfolding parse_zone_def using sg
    by (simp only: notZ len s1 s2 ph pm at if_False if_True option.case simp_thms) auto
  then show "parse_zone (sg # appendInt (int h) 2 @ '':'' @ appendInt (int m) 2)
           = Some (if sg = CHR ''-'' then - int ((h * 60 + m) * 60) else int ((h * 60 + m) * 60))"
    by (simp only: hh mm)
qed

lemma format_zone_shape:
  assumes "\<bar>off\<bar> < 86400" and "off mod 60 = 0" and "off \<noteq> 0"
  shows "\<exists>h m sg. h < 24 \<and> m < 60 \<and> (sg = CHR ''+'' \<or> sg = CHR ''-'') \<and>
           format_zone off = sg # appendInt (int h) 2 @ '':'' @ appendInt (int m) 2 \<and>
           off = (if sg = CHR ''-'' then - int ((h * 60 + m) * 60) else int ((h * 60 + m) * 60))"
proof (cases "off < 0")
  case True
  define z where "z = nat ((- off) div 60)"
  from True assms have z: "(- off) div 60 = int z" "z < 1440" "- off = int z * 60"
    by (auto simp: z_def)
  have pos: "0 < z" using z(3) True by (cases z) auto
  have fz: "format_zone off = CHR ''-'' # appendInt (int (z div 60)) 2 @ '':''
              @ appendInt (int (z mod 60)) 2"
    using True pos z(1) by (simp add: format_zone_def Let_def zdiv_int zmod_int)
  have "z div 60 < 24" "z mod 60 < 60" using z(2) by simp_all
  moreover have "off = - int ((z div 60 * 60 + z mod 60) * 60)" using z(3) by simp
  ultimately show ?thesis using fz by (intro exI [of _ "z div 60"] exI [of _ "z mod 60"]
      exI [of _ "CHR ''-''"]) simp
next
  case False
  define z where "z = nat (off div 60)"
  from False assms have z: "off div 60 = int z" "z < 1440" "off = int z * 60"
    by (auto simp: z_def)
  have fz: "format_zone off = CHR ''+'' # appendInt (int (z div 60)) 2 @ '':''
              @ appendInt (int (z mod 60)) 2"
    using False assms(3) z(1) by (simp add: format_zone_def Let_def zdiv_int zmod_int)
  have "z div 60 < 24" "z mod 60 < 60" using z(2) by simp_all
  moreover have "off = int ((z div 60 * 60 + z mod 60) * 60)" using z(3) by simp
  ultimately show ?thesis using fz by (intro exI [of _ "z div 60"] exI [of _ "z mod 60"]
      exI [of _ "CHR ''+''"]) simp
qed

lemma format_zone_round_trip:
  assumes "\<bar>off\<bar> < 86400" and "off mod 60 = 0"
  shows "parse_fraction (format_zone off) = (0, format_zone off)"
    and "parse_zone (format_zone off) = Some off"
proof -
  have "parse_fraction (format_zone off) = (0, format_zone off) \<and>
        parse_zone (format_zone off) = Some off"
  proof (cases "off = 0")
    case True
    then show ?thesis by (simp add: format_zone_def parse_fraction_def parse_zone_def)
  next
    case False
    from format_zone_shape [OF assms False] obtain h m sg
      where "h < 24" "m < 60" "sg = CHR ''+'' \<or> sg = CHR ''-''"
        and fz: "format_zone off = sg # appendInt (int h) 2 @ '':'' @ appendInt (int m) 2"
        and off: "off = (if sg = CHR ''-'' then - int ((h * 60 + m) * 60)
                         else int ((h * 60 + m) * 60))"
      by blast
    from zone_text [OF this(1-3)] fz off show ?thesis by simp
  qed
  then show "parse_fraction (format_zone off) = (0, format_zone off)"
    and "parse_zone (format_zone off) = Some off" by simp_all
qed

lemma two_digits: "(n::nat) < 100 \<Longrightarrow> n div 10 < 10 \<and> n mod 10 < 10"
  by (simp add: div_less_iff_less_mult)

lemma four_digits:
  "(n::nat) < 10000 \<Longrightarrow>
     n div 1000 < 10 \<and> n div 100 mod 10 < 10 \<and> n div 10 mod 10 < 10 \<and> n mod 10 < 10"
  by (simp add: div_less_iff_less_mult)

lemma daysIn_le: "daysIn m y \<le> 31"
  by (simp add: daysIn_def)

lemma valid_timestamp_digits:
  assumes "valid_timestamp t"
  shows "nat (Year t) div 1000 < 10" "nat (Year t) div 100 mod 10 < 10"
    "nat (Year t) div 10 mod 10 < 10" "nat (Year t) mod 10 < 10"
    "Month t div 10 < 10" "Month t mod 10 < 10" "Day t div 10 < 10" "Day t mod 10 < 10"
    "Hour t div 10 < 10" "Hour t mod 10 < 10" "Minute t div 10 < 10" "Minute t mod 10 < 10"
    "Second t div 10 < 10" "Second t mod 10 < 10"
proof -
  from assms have v: "0 \<le> Year t" "Year t \<le> 9999" "Month t \<le> 12"
    "Day t \<le> daysIn (Month t) (nat (Year t))" "Hour t < 24" "Minute t < 60" "Second t < 60"
    by (simp_all add: valid_timestamp_def)
  from v(1,2) have "nat (Year t) < 10000" by linarith
  from four_digits [OF this]
  show "nat (Year t) div 1000 < 10" "nat (Year t) div 100 mod 10 < 10"
    "nat (Year t) div 10 mod 10 < 10" "nat (Year t) mod 10 < 10" by simp_all
  from v(3) have "Month t < 100" by linarith
  from two_digits [OF this] show "Month t div 10 < 10" "Month t mod 10 < 10" by simp_all
  from v(4) daysIn_le [of "Month t" "nat (Year t)"] have "Day t < 100" by linarith
  from two_digits [OF this] show "Day t div 10 < 10" "Day t mod 10 < 10" by simp_all
  from v(5) have "Hour t < 100" by linarith
  from two_digits [OF this] show "Hour t div 10 < 10" "Hour t mod 10 < 10" by simp_all
  from v(6) have "Minute t < 100" by linarith
  from two_digits [OF this] show "Minute t div 10 < 10" "Minute t mod 10 < 10" by simp_all
  from v(7) have "Second t < 100" by linarith
  from two_digits [OF this] show "Second t div 10 < 10" "Second t mod 10 < 10" by simp_all
qed

lemma Format_RFC3339_shape:
  assumes "valid_timestamp t"
  shows "Format_RFC3339 t =
     [digit_char (nat (Year t) div 1000), digit_char (nat (Year t) div 100 mod 10),
      digit_char (nat (Year t) div 10 mod 10), digit_char (nat (Year t) mod 10), CHR ''-'',
      digit_char (Month t div 10), digit_char (Month t mod 10), CHR ''-'',
      digit_char (Day t div 10), digit_char (Day t mod 10), CHR ''T'',
      digit_char (Hour t div 10), digit_char (Hour t mod 10), CHR '':'',
      digit_char (Minute t div 10), digit_char (Minute t mod 10), CHR '':'',
      digit_char (Second t div 10), digit_char (Second t mod 10)] @ format_zone (ZoneOffset t)"
proof -
  from assms have "0 \<le> Year t" "Year t \<le> 9999"
    by (simp_all add: valid_timestamp_def)
  then have y: "int (nat (Year t)) = Year t" "nat (Year t) < 10000"
    by linarith+
  note year = appendInt_4 [OF y(2), unfolded y(1)]
  from assms have v: "Month t \<le> 12" "Day t \<le> daysIn (Month t) (nat (Year t))" "Hour t < 24"
    "Minute t < 60" "Second t < 60"
    by (simp_all add: valid_timestamp_def)
  from v daysIn_le [of "Month t" "nat (Year t)"]
  have small: "Month t < 100" "Day t < 100" "Hour t < 100" "Minute t < 100" "Second t < 100"
    by linarith+
  show ?thesis
    by (simp add: Format_RFC3339_def year appendInt_2 [OF small(1)]
        appendInt_2 [OF small(2)] appendInt_2 [OF small(3)] appendInt_2 [OF small(4)]
        appendInt_2 [OF small(5)])
qed

text \<open>
  Parsing what \<^verbatim>\<open>Format\<close> wrote gives the timestamp back without its nanoseconds.
\<close>

lemma parseRFC3339_Format_RFC3339:
  assumes "valid_timestamp t"
  shows "parseRFC3339 (Format_RFC3339 t) = Some (t\<lparr>Nanosecond := 0\<rparr>)"
proof -
  let ?y = "nat (Year t)"
  from assms have v: "0 \<le> Year t" "Year t \<le> 9999" "Hour t < 24" "Minute t < 60" "Second t < 60"
    and r0: "1 \<le> Month t" "Month t \<le> 12" "1 \<le> Day t" "Day t \<le> daysIn (Month t) ?y"
    and z: "\<bar>ZoneOffset t\<bar> < 86400" "ZoneOffset t mod 60 = 0"
    by (simp_all add: valid_timestamp_def)
  from v have y: "?y \<le> 9999" "int ?y = Year t"
    by linarith+
  from v r0 have r: "1 \<le> Month t" "Month t \<le> 12" "1 \<le> Day t"
    "Day t \<le> daysIn (Month t) ?y" "Hour t \<le> 23" "Minute t \<le> 59" "Second t \<le> 59"
    by linarith+
  note d = valid_timestamp_digits [OF assms]
  note recompose = digits_4 [of "?y"] digits_2 [of "Month t"] digits_2 [of "Day t"]
    digits_2 [of "Hour t"] digits_2 [of "Minute t"] digits_2 [of "Second t"]
  have "parseRFC3339 (Format_RFC3339 t) =
          Some \<lparr>Year = int (((?y div 1000 * 10 + ?y div 100 mod 10) * 10 + ?y div 10 mod 10) * 10
                          + ?y mod 10),
                Month = Month t div 10 * 10 + Month t mod 10,
                Day = Day t div 10 * 10 + Day t mod 10,
                Hour = Hour t div 10 * 10 + Hour t mod 10,
                Minute = Minute t div 10 * 10 + Minute t mod 10,
                Second = Second t div 10 * 10 + Second t mod 10,
                Nanosecond = 0, ZoneOffset = ZoneOffset t\<rparr>"
    unfolding Format_RFC3339_shape [OF assms]
    by (rule parseRFC3339_digits [OF d]) (simp_all only: recompose y r format_zone_round_trip [OF z])
  then show ?thesis
    by (simp only: recompose y) simp
qed

lemma plain_format_zone:
  assumes "\<bar>off\<bar> < 86400" and "off mod 60 = 0"
  shows "list_all plain_char (format_zone off)"
proof (cases "off = 0")
  case True
  then show ?thesis by (simp add: format_zone_def plain_char_def)
next
  case False
  from format_zone_shape [OF assms False] obtain h m sg
    where hm: "h < 24" "m < 60" and sg: "sg = CHR ''+'' \<or> sg = CHR ''-''"
      and fz: "format_zone off = sg # appendInt (int h) 2 @ '':'' @ appendInt (int m) 2"
    by blast
  from hm have "h div 10 < 10" "h mod 10 < 10" "m div 10 < 10" "m mod 10 < 10" by simp_all
  moreover from sg have "plain_char sg" by (auto simp: plain_char_def)
  moreover have "plain_char (CHR '':'')" by (simp add: plain_char_def)
  ultimately show ?thesis using hm
    by (simp add: fz appendInt_2 plain_digit_char)
qed

lemma plain_Format_RFC3339:
  assumes "valid_timestamp t"
  shows "list_all plain_char (Format_RFC3339 t)"
proof -
  from assms have z: "\<bar>ZoneOffset t\<bar> < 86400" "ZoneOffset t mod 60 = 0"
    by (simp_all add: valid_timestamp_def)
  note d = valid_timestamp_digits [OF assms]
  have p: "plain_char (CHR ''-'')" "plain_char (CHR ''T'')" "plain_char (CHR '':'')"
    by (simp_all add: plain_char_def)
  show ?thesis
    unfolding Format_RFC3339_shape [OF assms]
    by (simp add: plain_digit_char d p plain_format_zone [OF z])
qed

lemma json_quote_plain: "list_all plain_char s \<Longrightarrow> json_quote s = CHR 0x22 # s @ [CHR 0x22]"
proof -
  assume "list_all plain_char s"
  then have "concat (map json_escape s) = s"
    by (induction s) (auto simp: json_escape_def plain_char_def)
  then show ?thesis by (simp add: json_quote_def)
qed

lemma dropWhile_quote_plain:
  "list_all plain_char s \<Longrightarrow> dropWhile (\<lambda>c. c = CHR 0x22) s = s"
  by (cases s) (auto simp: plain_char_def)

lemma bytes_Trim_quoted:
  assumes "list_all plain_char s"
  shows "bytes_Trim (CHR 0x22 # s @ [CHR 0x22]) = s"
proof (cases s)
  case Nil
  then show ?thesis by (simp add: bytes_Trim_def)
next
  case (Cons x xs)
  with assms have front:
    "dropWhile (\<lambda>c. c = CHR 0x22) (CHR 0x22 # s @ [CHR 0x22]) = s @ [CHR 0x22]"
    by (simp add: plain_char_def)
  from assms have "list_all plain_char (rev s)" by (simp add: list_all_iff)
  then have "dropWhile (\<lambda>c. c = CHR 0x22) (rev s) = rev s"
    by (rule dropWhile_quote_plain)
  with front show ?thesis by (simp add: bytes_Trim_def)
qed

lemma string_token_quoted:
  "list_all plain_char s \<Longrightarrow> string_token (CHR 0x22 # s @ [CHR 0x22]) = Some s"
  by (simp add: string_token_def)

lemma MarshalJSON_token:
  "valid_timestamp t \<Longrightarrow> string_token (MarshalJSON t) = Some (Format_RFC3339 t)"
  by (simp add: MarshalJSON_def string_token_quoted plain_Format_RFC3339)

lemma UnmarshalJSON_Format:
  assumes "valid_timestamp t"
  shows "UnmarshalJSON general (json_quote (Format_RFC3339 t)) = Inr (t\<lparr>Nanosecond := 0\<rparr>)"
proof -
  have "bytes_Trim (json_quote (Format_RFC3339 t)) = Format_RFC3339 t"
    using plain_Format_RFC3339 [OF assms] by (simp add: json_quote_plain bytes_Trim_quoted)
  then show ?thesis
    by (simp add: UnmarshalJSON_def time_Parse_def parseRFC3339_Format_RFC3339 [OF assms])
qed

section \<open>Decoding what json.Marshal wrote\<close>

lemma to_upper_ascii:
  "to_upper CHR ''a'' = CHR ''A''" "to_upper CHR ''b'' = CHR ''B''" "to_upper CHR ''c'' = CHR ''C''"
  "to_upper CHR ''d'' = CHR ''D''" "to_upper CHR ''e'' = CHR ''E''" "to_upper CHR ''f'' = CHR ''F''"
  "to_upper CHR ''g'' = CHR ''G''" "to_upper CHR ''h'' = CHR ''H''" "to_upper CHR ''i'' = CHR ''I''"
  "to_upper CHR ''j'' = CHR ''J''" "to_upper CHR ''k'' = CHR ''K''" "to_upper CHR ''l'' = CHR ''L''"
  "to_upper CHR ''m'' = CHR ''M''" "to_upper CHR ''n'' = CHR ''N''" "to_upper CHR ''o'' = CHR ''O''"
  "to_upper CHR ''p'' = CHR ''P''" "to_upper CHR ''q'' = CHR ''Q''" "to_upper CHR ''r'' = CHR ''R''"
  "to_upper CHR ''s'' = CHR ''S''" "to_upper CHR ''t'' = CHR ''T''" "to_upper CHR ''u'' = CHR ''U''"
  "to_upper CHR ''v'' = CHR ''V''" "to_upper CHR ''w'' = CHR ''W''" "to_upper CHR ''x'' = CHR ''X''"
  "to_upper CHR ''y'' = CHR ''Y''" "to_upper CHR ''z'' = CHR ''Z''" "to_upper CHR ''_'' = CHR ''_''"
  by (simp_all add: to_upper_def char_of_eq_iff)

lemma sint_in_range: "- (2 ^ 63) \<le> sint (w :: go_int) \<and> sint w < 2 ^ 63"
  using sint_ge [of w] sint_lt [of w] by simp

text \<open>A string of valid encodings is written as it is.\<close>

lemma appendString_valid: "ValidString s \<Longrightarrow> appendString s = s"
  by (induction s rule: appendString.induct) (auto split: option.splits)

lemma ValidString_ascii: "list_all (\<lambda>c. (of_char c :: nat) < 0x80) s \<Longrightarrow> ValidString s"
  by (induction s) (simp_all add: DecodeRuneInString_def)

lemma set_string_JString:
  "set_string field (JString x) upd st = st\<lparr>target := upd x (target st)\<rparr>"
  by (simp add: set_string_def)

lemma set_int_JInt_sint:
  "set_int field (JInt (sint (w :: go_int))) upd st = st\<lparr>target := upd w (target st)\<rparr>"
  using sint_in_range [of w] by (simp add: set_int_def)

lemma set_struct_marshal_AddressDetails:
  assumes "utf8_AddressDetails a"
  shows "set_struct field (marshal_AddressDetails a) (decode_AddressDetails_member disallow)
           get upd st
         = st\<lparr>target := upd a (target st)\<rparr>"
proof -
  have members: "foldl (\<lambda>d m. decode_AddressDetails_member disallow m d)
          \<lparr>target = a0, savedError = e\<rparr>
          [(''name'', JString (FullName a)), (''phone'', JString (Phone a)),
           (''zip'', JString (ZipCode a)), (''city'', JString (City a)),
           (''address'', JString (Street a)), (''region'', JString (Region a)),
           (''email'', JString (Email a))]
        = \<lparr>target = a, savedError = e\<rparr>" for a0 e
    by (cases a, cases a0)
      (simp add: decode_AddressDetails_member_def matches_def to_upper_ascii set_string_JString)
  from assms have "marshal_AddressDetails a =
      JObject [(''name'', JString (FullName a)), (''phone'', JString (Phone a)),
           (''zip'', JString (ZipCode a)), (''city'', JString (City a)),
           (''address'', JString (Street a)), (''region'', JString (Region a)),
           (''email'', JString (Email a))]"
    by (simp add: marshal_AddressDetails_def utf8_AddressDetails_def appendString_valid)
  with members show ?thesis
    by (simp add: set_struct_def)
qed

lemma set_struct_marshal_PaymentDetails:
  assumes "utf8_PaymentDetails p"
  shows "set_struct field (marshal_PaymentDetails p) (decode_PaymentDetails_member disallow)
           get upd st
         = st\<lparr>target := upd p (target st)\<rparr>"
proof -
  have members: "foldl (\<lambda>d m. decode_PaymentDetails_member disallow m d)
          \<lparr>target = p0, savedError = e\<rparr>
          [(''transaction'', JString (TransactionID p)), (''request_id'', JString (RequestID p)),
           (''currency'', JString (Currency p)), (''provider'', JString (Provider p)),
           (''amount'', JInt (sint (Amount p))), (''payment_dt'', JInt (sint (PaymentDate p))),
           (''bank'', JString (Bank p)), (''delivery_cost'', JInt (sint (DeliveryCost p))),
           (''goods_total'', JInt (sint (TotalGoods p))),
           (''custom_fee'', JInt (sint (CustomFee p)))]
        = \<lparr>target = p, savedError = e\<rparr>" for p0 e
    by (cases p, cases p0)
      (simp add: decode_PaymentDetails_member_def matches_def to_upper_ascii set_string_JString
        set_int_JInt_sint)
  from assms have "marshal_PaymentDetails p =
      JObject [(''transaction'', JString (TransactionID p)), (''request_id'', JString (RequestID p)),
           (''currency'', JString (Currency p)), (''provider'', JString (Provider p)),
           (''amount'', JInt (sint (Amount p))), (''payment_dt'', JInt (sint (PaymentDate p))),
           (''bank'', JString (Bank p)), (''delivery_cost'', JInt (sint (DeliveryCost p))),
           (''goods_total'', JInt (sint (TotalGoods p))),
           (''custom_fee'', JInt (sint (CustomFee p)))]"
    by (simp add: marshal_PaymentDetails_def utf8_PaymentDetails_def appendString_valid)
  with members show ?thesis
    by (simp add: set_struct_def)
qed

lemma decode_ProductItem_marshal:
  assumes "utf8_ProductItem it"
  shows "decode_ProductItem disallow (marshal_ProductItem it) e = \<lparr>target = it, savedError = e\<rparr>"
proof -
  from assms have "marshal_ProductItem it =
     JObject [(''chrt_id'', JInt (sint (ChartID it))), (''track_number'', JString (TrackingNum it)),
              (''price'', JInt (sint (Price it))), (''rid'', JString (RID it)),
              (''name'', JString (Name it)), (''sale'', JInt (sint (Discount it))),
              (''size'', JString (Size it)), (''total_price'', JInt (sint (TotalPrice it))),
              (''nm_id'', JInt (sint (ProductID it))), (''brand'', JString (Brand it)),
              (''status'', JInt (sint (Status it)))]"
    by (simp add: marshal_ProductItem_def utf8_ProductItem_def appendString_valid)
  then show ?thesis
    by (cases it)
      (simp add: decode_ProductItem_def zero_ProductItem_def
        decode_ProductItem_member_def matches_def to_upper_ascii set_string_JString
        set_int_JInt_sint)
qed

lemma decode_items_marshal:
  "list_all utf8_ProductItem its \<Longrightarrow>
     decode_items disallow (map marshal_ProductItem its) e = \<lparr>target = its, savedError = e\<rparr>"
  by (induction its) (simp_all add: decode_ProductItem_marshal Let_def)

lemma Decode_marshalled:
  assumes "decode_time general (JString ts) = Inr t'"
    and "utf8_AddressDetails (Address order)" and "utf8_PaymentDetails (Payment order)"
    and "list_all utf8_ProductItem (Products order)"
  shows "Decode general disallow
           (JObject
             [(''order_uid'', JString (OrderID order)),
              (''track_number'', JString (TrackingNumber order)),
              (''entry'', JString (EntryPoint order)),
              (''delivery'', marshal_AddressDetails (Address order)),
              (''payment'', marshal_PaymentDetails (Payment order)),
              (''items'', JArray (map marshal_ProductItem (Products order))),
              (''locale'', JString (Locale order)),
              (''internal_signature'', JString (Signature order)),
              (''customer_id'', JString (CustomerID order)),
              (''delivery_service'', JString (DeliveryService order)),
              (''shardkey'', JString (ShardKey order)),
              (''sm_id'', JInt (sint (SMID order))),
              (''date_created'', JString ts),
              (''oof_shard'', JString (OutOfShard order))])
           zero_OrderDetails
         = Inr (order\<lparr>CreationTimestamp := t'\<rparr>)"
  using assms
  by (cases order)
    (simp add: Decode_def decode_OrderDetails_member_def matches_def to_upper_ascii
      set_string_JString set_int_JInt_sint set_struct_marshal_AddressDetails
      set_struct_marshal_PaymentDetails set_items_def decode_items_marshal Let_def
      zero_OrderDetails_def)

lemma json_Marshal_valid:
  assumes "valid_timestamp (CreationTimestamp order)" and "utf8_strings order"
  shows "json_Marshal order =
           Inr (JObject
             [(''order_uid'', JString (OrderID order)),
              (''track_number'', JString (TrackingNumber order)),
              (''entry'', JString (EntryPoint order)),
              (''delivery'', marshal_AddressDetails (Address order)),
              (''payment'', marshal_PaymentDetails (Payment order)),
              (''items'', JArray (map marshal_ProductItem (Products order))),
              (''locale'', JString (Locale order)),
              (''internal_signature'', JString (Signature order)),
              (''customer_id'', JString (CustomerID order)),
              (''delivery_service'', JString (DeliveryService order)),
              (''shardkey'', JString (ShardKey order)),
              (''sm_id'', JInt (sint (SMID order))),
              (''date_created'', JString (Format_RFC3339 (CreationTimestamp order))),
              (''oof_shard'', JString (OutOfShard order))])"
  using assms(2)
  by (simp add: json_Marshal_def MarshalJSON_token [OF assms(1)] utf8_strings_def
      appendString_valid)

lemma ParseOrder_marshalled:
  assumes "valid_timestamp (CreationTimestamp order)" and "utf8_strings order"
    and "int (length (Products order)) \<le> maxItems"
    and "json_Marshal order = Inr data"
  shows "ParseOrder general data maxItems
           = Inr (order\<lparr>CreationTimestamp := (CreationTimestamp order)\<lparr>Nanosecond := 0\<rparr>\<rparr>)"
proof -
  let ?t = "CreationTimestamp order"
  have "decode_time general (JString (Format_RFC3339 ?t)) = Inr (?t\<lparr>Nanosecond := 0\<rparr>)"
    by (simp add: decode_time_def UnmarshalJSON_Format [OF assms(1)])
  from Decode_marshalled [OF this, of order True] assms(2)
  have "Decode general True
          (JObject
             [(''order_uid'', JString (OrderID order)),
              (''track_number'', JString (TrackingNumber order)),
              (''entry'', JString (EntryPoint order)),
              (''delivery'', marshal_AddressDetails (Address order)),
              (''payment'', marshal_PaymentDetails (Payment order)),
              (''items'', JArray (map marshal_ProductItem (Products order))),
              (''locale'', JString (Locale order)),
              (''internal_signature'', JString (Signature order)),
              (''customer_id'', JString (CustomerID order)),
              (''delivery_service'', JString (DeliveryService order)),
              (''shardkey'', JString (ShardKey order)),
              (''sm_id'', JInt (sint (SMID order))),
              (''date_created'', JString (Format_RFC3339 ?t)),
              (''oof_shard'', JString (OutOfShard order))])
          zero_OrderDetails
        = Inr (order\<lparr>CreationTimestamp := ?t\<lparr>Nanosecond := 0\<rparr>\<rparr>)"
    by (simp add: utf8_strings_def)
  with assms(3,4) json_Marshal_valid [OF assms(1,2)] show ?thesis
    by (simp add: ParseOrder_def)
qed

lemma valid_timestamp_test_order: "valid_timestamp (CreationTimestamp test_order)"
  by (simp add: valid_timestamp_def test_order_def daysIn_def)

lemma utf8_strings_test_order: "utf8_strings test_order"
  by (simp add: utf8_strings_def utf8_AddressDetails_def utf8_PaymentDetails_def
      utf8_ProductItem_def test_order_def ValidString_ascii del: ValidString.simps)

lemma Format_RFC3339_test_order:
  "Format_RFC3339 (CreationTimestamp test_order) = ''2021-11-26T06:22:19Z''"
  by code_simp

lemma json_Marshal_test_order: "json_Marshal test_order = Inr test_payload"
  by (simp add: json_Marshal_valid [OF valid_timestamp_test_order utf8_strings_test_order]
      Format_RFC3339_test_order)
    (simp add: test_order_def test_payload_def marshal_AddressDetails_def
      marshal_PaymentDetails_def marshal_ProductItem_def appendString_valid ValidString_ascii
        del: ValidString.simps appendString.simps)

lemma ParseOrder_test_payload: "ParseOrder strict_only test_payload 10 = Inr test_order"
proof -
  have "int (length (Products test_order)) \<le> 10"
    and n: "Nanosecond (CreationTimestamp test_order) = 0"
    by (simp_all add: test_order_def)
  from ParseOrder_marshalled [OF valid_timestamp_test_order utf8_strings_test_order this(1)
      json_Marshal_test_order, of strict_only] n
  show ?thesis by simp
qed

text \<open>
  Claim C7, as amended. For every order whose strings are valid UTF-8, whose number of
  items is within the ceiling and whose timestamp is a calendar date of the years 0 to
  9999 with a zone offset of whole minutes, \<^verbatim>\<open>json.Marshal\<close> succeeds and \<^verbatim>\<open>ParseOrder\<close> of
  its output is the order with the timestamp cut to whole seconds: \<^verbatim>\<open>MarshalJSON\<close> writes
  the layout RFC3339, which has no fraction of a second. The round trip gives the order
  as it was exactly when its timestamp has no nanoseconds.
\<close>

theorem ParseOrder_json_Marshal:
  assumes "valid_timestamp (CreationTimestamp order)"
    and "utf8_strings order"
    and "int (length (Products order)) \<le> maxItems"
  shows "\<exists>data. json_Marshal order = Inr data \<and>
           ParseOrder general data maxItems
             = Inr (order\<lparr>CreationTimestamp := (CreationTimestamp order)\<lparr>Nanosecond := 0\<rparr>\<rparr>) \<and>
           (ParseOrder general data maxItems = Inr order
              \<longleftrightarrow> Nanosecond (CreationTimestamp order) = 0)"
proof -
  let ?t = "CreationTimestamp order"
  let ?cut = "order\<lparr>CreationTimestamp := ?t\<lparr>Nanosecond := 0\<rparr>\<rparr>"
  from json_Marshal_valid [OF assms(1,2)] obtain data where enc: "json_Marshal order = Inr data"
    by blast
  have dec: "ParseOrder general data maxItems = Inr ?cut"
    by (rule ParseOrder_marshalled [OF assms enc])
  have "?cut = order \<longleftrightarrow> Nanosecond ?t = 0"
  proof
    assume "?cut = order"
    then have "CreationTimestamp ?cut = ?t" by simp
    then have "Nanosecond (?t\<lparr>Nanosecond := 0\<rparr>) = Nanosecond ?t" by simp
    then show "Nanosecond ?t = 0" by simp
  next
    assume "Nanosecond ?t = 0"
    then have "?t\<lparr>Nanosecond := 0\<rparr> = ?t" by simp
    then show "?cut = order" by simp
  qed
  with enc dec show ?thesis by simp
qed

text \<open>Witness for C7: the sample order, whose timestamp has no fraction, comes out as it is.\<close>

theorem ParseOrder_json_Marshal_witness:
  "valid_timestamp (CreationTimestamp test_order) \<and> utf8_strings test_order \<and>
   int (length (Products test_order)) \<le> 10 \<and>
   json_Marshal test_order = Inr test_payload \<and>
   ParseOrder strict_only test_payload 10 = Inr test_order"
proof -
  have n: "int (length (Products test_order)) \<le> 10" "Nanosecond (CreationTimestamp test_order) = 0"
    by (simp_all add: test_order_def)
  from ParseOrder_json_Marshal [OF valid_timestamp_test_order utf8_strings_test_order n(1),
      of strict_only]
    json_Marshal_test_order n valid_timestamp_test_order utf8_strings_test_order
  show ?thesis by auto
qed

text \<open>
  Counterexample to C7 as stated: the sample order created half a second later is
  encoded as the same text as the sample order, and that text decodes to the sample
  order, not to the order that was encoded.
\<close>

theorem ParseOrder_json_Marshal_counterexample:
  "json_Marshal half_second_order = Inr test_payload \<and>
   ParseOrder strict_only test_payload 10 = Inr test_order \<and>
   test_order \<noteq> half_second_order"
proof -
  have v: "valid_timestamp (CreationTimestamp half_second_order)"
    by (simp add: valid_timestamp_def half_second_order_def test_order_def daysIn_def)
  have u: "utf8_strings half_second_order"
    using utf8_strings_test_order by (simp add: half_second_order_def utf8_strings_def)
  have "Format_RFC3339 (t\<lparr>Nanosecond := n\<rparr>) = Format_RFC3339 t" for t n
    by (simp add: Format_RFC3339_def)
  then have f: "Format_RFC3339 (CreationTimestamp half_second_order) = ''2021-11-26T06:22:19Z''"
    by (simp add: half_second_order_def Format_RFC3339_test_order)
  have enc: "json_Marshal half_second_order = Inr test_payload"
    by (simp add: json_Marshal_valid [OF v u] f)
      (simp add: half_second_order_def test_order_def test_payload_def marshal_AddressDetails_def
        marshal_PaymentDetails_def marshal_ProductItem_def appendString_valid ValidString_ascii
        del: ValidString.simps appendString.simps)
  have "Nanosecond (CreationTimestamp test_order) \<noteq> Nanosecond (CreationTimestamp half_second_order)"
    by (simp add: half_second_order_def test_order_def)
  then have "test_order \<noteq> half_second_order" by auto
  with enc ParseOrder_test_payload show ?thesis by simp
qed

section \<open>Strict decoding\<close>

























section \<open>What the codec and the cache layer do not check\<close>

text \<open>
  Claim C10. \<^verbatim>\<open>ParseOrder\<close> looks at the structure of the payload, at its keys and at the
  number of items, and at nothing else: a payload without \<^verbatim>\<open>order_uid\<close> and a payload whose
  \<^verbatim>\<open>order_uid\<close> is the empty string are both decoded, under every ceiling, to the order
  whose identifier is empty. \<^verbatim>\<open>AddOrder\<close> does not look at the identifier either: the order
  is handed to the cache under the empty key and is there when the cache takes it, and the
  write into an empty store succeeds.
\<close>

theorem ParseOrder_accepts_empty_order_uid:
  "ParseOrder general (JObject []) (int n) = Inr zero_OrderDetails \<and>
   ParseOrder general (JObject [(''order_uid'', JString [])]) (int n) = Inr zero_OrderDetails \<and>
   OrderID zero_OrderDetails = [] \<and>
   cache (fst (AddOrder a io s zero_OrderDetails)) = cache_Set a (cache s) [] zero_OrderDetails \<and>
   cache_Get (cache (fst (AddOrder (Stored evicted) io s zero_OrderDetails))) []
     = Some zero_OrderDetails \<and>
   snd (AddOrder a no_faults empty_service zero_OrderDetails) = Inr ()"
proof -
  have uid: "OrderID zero_OrderDetails = []"
    by (simp add: zero_OrderDetails_def)
  have absent: "ParseOrder general (JObject []) (int n) = Inr zero_OrderDetails"
    by (simp add: ParseOrder_def Decode_def zero_OrderDetails_def)
  have "zero_OrderDetails\<lparr>OrderID := []\<rparr> = zero_OrderDetails"
    by (simp add: zero_OrderDetails_def)
  moreover have "Products zero_OrderDetails = []"
    by (simp add: zero_OrderDetails_def)
  ultimately have empty: "ParseOrder general (JObject [(''order_uid'', JString [])]) (int n)
      = Inr zero_OrderDetails"
    by (simp add: ParseOrder_def Decode_def decode_OrderDetails_member_def matches_def
        set_string_def uid)
  have handed: "cache (fst (AddOrder a io s zero_OrderDetails))
      = cache_Set a (cache s) [] zero_OrderDetails" for a
    by (simp add: AddOrder_def Let_def uid split: prod.splits sum.splits)
  have there: "cache_Get (cache (fst (AddOrder (Stored evicted) io s zero_OrderDetails))) []
      = Some zero_OrderDetails"
    by (simp add: handed cache_Set_def cache_Get_def)
  have written: "snd (AddOrder a no_faults empty_service zero_OrderDetails) = Inr ()"
    by (simp add: AddOrder_def dbAddOrder_def tx_body_def insert_delivery_def insert_payment_def
        insert_order_def empty_service_def empty_db_def zero_OrderDetails_def no_faults_def
        Let_def split: prod.splits)
  from uid absent empty handed there written show ?thesis
    by blast
qed

section \<open>The query surface\<close>

lemma orderHandler_GetOrder_error:
  assumes "Method r = ''GET''" and "order_uid r \<noteq> []"
    and "snd (GetOrder a io s (order_uid r)) = Inl err"
  shows "snd (orderHandler a io s r) = (StatusInternalServerError, ErrorFetchingOrder err)"
  using assms by (cases "GetOrder a io s (order_uid r)") (simp add: orderHandler_def)

lemma GetOrder_empty_service:
  "snd (GetOrder a no_faults empty_service ''missing'') = Inl ErrNoRows"
  "snd (GetOrder a store_down empty_service ''missing'') = Inl (IOError SelectOrder)"
proof -
  have miss: "cache_Get (cache empty_service) ''missing'' = None"
    by (simp add: empty_service_def cache_Get_def)
  have "dbGetOrder no_faults (db empty_service) ''missing'' = Inl ErrNoRows"
    by (rule dbGetOrder_no_row) (simp_all add: no_faults_def empty_service_def empty_db_def)
  from GetOrder_miss_Inl [OF miss this]
  show "snd (GetOrder a no_faults empty_service ''missing'') = Inl ErrNoRows"
    by simp
  have "dbGetOrder store_down (db empty_service) ''missing'' = Inl (IOError SelectOrder)"
    by (rule dbGetOrder_select_fault) (simp add: store_down_def)
  from GetOrder_miss_Inl [OF miss this]
  show "snd (GetOrder a store_down empty_service ''missing'') = Inl (IOError SelectOrder)"
    by simp
qed

text \<open>
  Claim C6, as amended. The handler gives one and the same answer to every error of
  \<^verbatim>\<open>GetOrder\<close>, a missing order and a failing store alike: the status 500 with the text of
  the error. The statuses of the class 4xx are for the request itself: 405 for a method
  other than GET and 400 for a request without an order identifier. An order that is
  found is answered with the status 200 and its JSON text.
\<close>

theorem orderHandler_status:
  "(Method r \<noteq> ''GET'' \<longrightarrow>
      orderHandler a io s r = (s, StatusMethodNotAllowed, PlainText ''Invalid method'')) \<and>
   (Method r = ''GET'' \<and> order_uid r = [] \<longrightarrow>
      orderHandler a io s r = (s, StatusBadRequest, PlainText ''Missing order UID'')) \<and>
   (\<forall>err. Method r = ''GET'' \<and> order_uid r \<noteq> [] \<and>
      snd (GetOrder a io s (order_uid r)) = Inl err \<longrightarrow>
        snd (orderHandler a io s r) = (StatusInternalServerError, ErrorFetchingOrder err)) \<and>
   (\<forall>order data. Method r = ''GET'' \<and> order_uid r \<noteq> [] \<and>
      snd (GetOrder a io s (order_uid r)) = Inr order \<and> json_Marshal order = Inr data \<longrightarrow>
        snd (orderHandler a io s r) = (StatusOK, OrderJSON data)) \<and>
   StatusInternalServerError = 500 \<and> StatusBadRequest = 400 \<and> StatusMethodNotAllowed = 405 \<and>
   StatusOK = 200"
proof -
  have found: "snd (orderHandler a io s r) = (StatusOK, OrderJSON data)"
    if "Method r = ''GET''" "order_uid r \<noteq> []"
      "snd (GetOrder a io s (order_uid r)) = Inr order" "json_Marshal order = Inr data"
    for order data
    using that by (cases "GetOrder a io s (order_uid r)") (simp add: orderHandler_def)
  then show ?thesis
    by (simp add: orderHandler_GetOrder_error StatusInternalServerError_def StatusBadRequest_def
        StatusMethodNotAllowed_def StatusOK_def)
      (simp add: orderHandler_def StatusBadRequest_def StatusMethodNotAllowed_def)
qed

text \<open>
  Witness for C6: a request with the method POST, a request without an identifier, and
  two lookups of an identifier on a fresh service, one over an empty store and one over
  a store that is down; and the lookup of the sample order on a service that has it in
  its cache.
\<close>

theorem orderHandler_status_witness:
  "orderHandler (Stored []) no_faults empty_service \<lparr>Method = ''POST'', order_uid = ''missing''\<rparr>
     = (empty_service, 405, PlainText ''Invalid method'') \<and>
   orderHandler (Stored []) no_faults empty_service \<lparr>Method = ''GET'', order_uid = []\<rparr>
     = (empty_service, 400, PlainText ''Missing order UID'') \<and>
   snd (orderHandler (Stored []) no_faults empty_service get_missing)
     = (500, ErrorFetchingOrder ErrNoRows) \<and>
   snd (orderHandler (Stored []) store_down empty_service get_missing)
     = (500, ErrorFetchingOrder (IOError SelectOrder)) \<and>
   snd (orderHandler Dropped store_down
          (empty_service\<lparr>cache := [''b563feb7b2b84b6test'' \<mapsto> test_order]\<rparr>)
          \<lparr>Method = ''GET'', order_uid = ''b563feb7b2b84b6test''\<rparr>)
     = (200, OrderJSON test_payload)"
proof -
  let ?post = "\<lparr>Method = ''POST'', order_uid = ''missing''\<rparr>"
  let ?nouid = "\<lparr>Method = ''GET'', order_uid = []\<rparr>"
  let ?get = "\<lparr>Method = ''GET'', order_uid = ''b563feb7b2b84b6test''\<rparr>"
  let ?warm = "empty_service\<lparr>cache := [''b563feb7b2b84b6test'' \<mapsto> test_order]\<rparr>"
  have hit: "snd (GetOrder Dropped store_down ?warm ''b563feb7b2b84b6test'') = Inr test_order"
    by (simp add: GetOrder_hit cache_Get_def)
  from orderHandler_status [of ?post "Stored []" no_faults empty_service]
  have c1: "orderHandler (Stored []) no_faults empty_service ?post
      = (empty_service, 405, PlainText ''Invalid method'')"
    by simp
  from orderHandler_status [of ?nouid "Stored []" no_faults empty_service]
  have c2: "orderHandler (Stored []) no_faults empty_service ?nouid
      = (empty_service, 400, PlainText ''Missing order UID'')"
    by simp
  from orderHandler_status [of get_missing "Stored []" no_faults empty_service]
    GetOrder_empty_service(1) [of "Stored []"]
  have c3: "snd (orderHandler (Stored []) no_faults empty_service get_missing)
      = (500, ErrorFetchingOrder ErrNoRows)"
    by (simp add: get_missing_def)
  from orderHandler_status [of get_missing "Stored []" store_down empty_service]
    GetOrder_empty_service(2) [of "Stored []"]
  have c4: "snd (orderHandler (Stored []) store_down empty_service get_missing)
      = (500, ErrorFetchingOrder (IOError SelectOrder))"
    by (simp add: get_missing_def)
  from orderHandler_status [of ?get Dropped store_down ?warm] hit json_Marshal_test_order
  have c5: "snd (orderHandler Dropped store_down ?warm ?get) = (200, OrderJSON test_payload)"
    by simp
  from c1 c2 c3 c4 c5 show ?thesis
    by blast
qed

text \<open>
  Counterexample to C6 as stated: the lookup of an identifier that the store does not
  have is answered with the status 500, the status of a lookup over a store that is down,
  and not with a status of the class 4xx.
\<close>

theorem orderHandler_status_counterexample:
  "snd (GetOrder (Stored []) no_faults empty_service (order_uid get_missing)) = Inl ErrNoRows \<and>
   fst (snd (orderHandler (Stored []) no_faults empty_service get_missing)) = 500 \<and>
   snd (GetOrder (Stored []) store_down empty_service (order_uid get_missing))
     = Inl (IOError SelectOrder) \<and>
   fst (snd (orderHandler (Stored []) store_down empty_service get_missing)) = 500"
proof -
  have r: "Method get_missing = ''GET''" "order_uid get_missing = ''missing''"
    "order_uid get_missing \<noteq> []"
    by (simp_all add: get_missing_def)
  from orderHandler_GetOrder_error [OF r(1) r(3), of "Stored []" no_faults empty_service ErrNoRows]
    orderHandler_GetOrder_error [OF r(1) r(3), of "Stored []" store_down empty_service
      "IOError SelectOrder"]
    GetOrder_empty_service [of "Stored []"]
  show ?thesis
    by (simp add: r(2) StatusInternalServerError_def)
qed

section \<open>The stream consumer\<close>

lemma Decode_two_items_payload:
  "Decode general False two_items_payload zero_OrderDetails = Inr two_items_order"
  by (simp add: two_items_payload_def two_items_order_def Decode_def zero_OrderDetails_def
      decode_OrderDetails_member_def matches_def to_upper_ascii set_string_def set_items_def
      decode_ProductItem_def decode_ProductItem_member_def set_int_def zero_ProductItem_def
      Let_def)

lemma ParseOrder_two_items_payload:
  "ParseOrder general two_items_payload 1 = Inl TooManyProducts"
  by (simp add: two_items_payload_def ParseOrder_def Decode_def zero_OrderDetails_def
      decode_OrderDetails_member_def matches_def to_upper_ascii set_string_def set_items_def
      decode_ProductItem_def decode_ProductItem_member_def set_int_def zero_ProductItem_def
      Let_def)

lemma AddOrder_two_items_order:
  "fst (AddOrder (Stored []) no_faults empty_service two_items_order) =
     \<lparr>cache = [''big'' \<mapsto> two_items_order],
      db = \<lparr>rows = \<lparr>delivery = [(1, Address two_items_order)],
                    payment = [Payment two_items_order],
                    items = Products two_items_order,
                    orders = [order_row_of two_items_order 1], order_item_conn = []\<rparr>,
            delivery_id_seq = 1\<rparr>,
      maxSize = 1024, db_calls = [CallAddOrder ''big'']\<rparr>"
  by (simp add: AddOrder_def dbAddOrder_def tx_body_def insert_delivery_def insert_payment_def
      insert_order_def empty_service_def empty_db_def two_items_order_def zero_OrderDetails_def
      zero_ProductItem_def no_faults_def cache_Set_def Let_def)

lemma StartListening_snoc:
  "StartListening general s (turns @ [(msg, a, io)])
     = consume general a io (StartListening general s turns) msg"
  by (induction turns arbitrary: s) auto

text \<open>
  Claim C5, as amended. The consumer decodes a message with \<^verbatim>\<open>json.Unmarshal\<close> in
  \<^verbatim>\<open>decodeOrder\<close>, not with \<^verbatim>\<open>ParseOrder\<close>, and there is no ceiling on the number of items on
  this path: every message that \<^verbatim>\<open>json.Unmarshal\<close> decodes to an order is handed to
  \<^verbatim>\<open>AddOrder\<close>, so to the cache and to the store, whatever the number of its items. A
  message that is not read or not decoded leaves the service as it was, and the loop
  treats every message it receives in this way. The ceiling is in \<^verbatim>\<open>ParseOrder\<close>: what it
  returns has no more items than the ceiling.
\<close>

theorem consume_without_ceiling:
  "(\<forall>order. Decode general False data zero_OrderDetails = Inr order \<longrightarrow>
      consume general a io s (Message data) = fst (AddOrder a io s order) \<and>
      cache (consume general a io s (Message data))
        = cache_Set a (cache s) (OrderID order) order \<and>
      db (consume general a io s (Message data)) = fst (dbAddOrder io (db s) order) \<and>
      db_calls (consume general a io s (Message data))
        = db_calls s @ [CallAddOrder (OrderID order)]) \<and>
   (\<forall>err. Decode general False data zero_OrderDetails = Inl err \<longrightarrow>
      consume general a io s (Message data) = s) \<and>
   consume general a io s Malformed = s \<and>
   consume general a io s ReadError = s \<and>
   StartListening general s (turns @ [(msg, a, io)])
     = consume general a io (StartListening general s turns) msg \<and>
   (\<forall>order. ParseOrder general data maxItems = Inr order \<longrightarrow>
      int (length (Products order)) \<le> maxItems)"
proof -
  have handed: "cache (fst (AddOrder a io s order)) = cache_Set a (cache s) (OrderID order) order
      \<and> db (fst (AddOrder a io s order)) = fst (dbAddOrder io (db s) order)
      \<and> db_calls (fst (AddOrder a io s order)) = db_calls s @ [CallAddOrder (OrderID order)]"
    for order
    by (simp add: AddOrder_def Let_def split: prod.splits sum.splits)
  have ceiling: "int (length (Products order)) \<le> maxItems"
    if "ParseOrder general data maxItems = Inr order" for order
    using that by (auto simp: ParseOrder_def split: sum.splits if_splits)
  have decoded: "\<forall>order. Decode general False data zero_OrderDetails = Inr order \<longrightarrow>
      consume general a io s (Message data) = fst (AddOrder a io s order) \<and>
      cache (consume general a io s (Message data))
        = cache_Set a (cache s) (OrderID order) order \<and>
      db (consume general a io s (Message data)) = fst (dbAddOrder io (db s) order) \<and>
      db_calls (consume general a io s (Message data))
        = db_calls s @ [CallAddOrder (OrderID order)]"
    by (simp add: consume_def decodeOrder_def handed)
  have refused: "\<forall>err. Decode general False data zero_OrderDetails = Inl err \<longrightarrow>
      consume general a io s (Message data) = s"
    by (simp add: consume_def decodeOrder_def)
  have dropped: "consume general a io s Malformed = s" "consume general a io s ReadError = s"
    by (simp_all add: consume_def)
  from decoded refused dropped StartListening_snoc [of general s turns msg a io] ceiling
  show ?thesis
    by blast
qed

text \<open>
  Witness for C5: the message with two items is handed to \<^verbatim>\<open>AddOrder\<close>; a message that is
  a string is not decoded and nothing changes; \<^verbatim>\<open>ParseOrder\<close> takes the sample payload,
  whose single item is within the ceiling of ten.
\<close>

theorem consume_without_ceiling_witness:
  "consume strict_only (Stored []) no_faults empty_service (Message two_items_payload)
     = fst (AddOrder (Stored []) no_faults empty_service two_items_order) \<and>
   consume strict_only (Stored []) no_faults empty_service (Message (JString ''order''))
     = empty_service \<and>
   ParseOrder strict_only test_payload 10 = Inr test_order \<and>
   int (length (Products test_order)) \<le> 10"
proof -
  have bad: "Decode strict_only False (JString ''order'') zero_OrderDetails
      = Inl (UnmarshalTypeError ''string'' ''OrderDetails'')"
    by (simp add: Decode_def kind_of_def)
  from consume_without_ceiling [of strict_only two_items_payload "Stored []" no_faults
      empty_service "[]" ReadError 1]
    Decode_two_items_payload [of strict_only]
  have c1: "consume strict_only (Stored []) no_faults empty_service (Message two_items_payload)
     = fst (AddOrder (Stored []) no_faults empty_service two_items_order)"
    by simp
  from consume_without_ceiling [of strict_only "JString ''order''" "Stored []" no_faults
      empty_service "[]" ReadError 1] bad
  have c2: "consume strict_only (Stored []) no_faults empty_service (Message (JString ''order''))
     = empty_service"
    by simp
  from consume_without_ceiling [of strict_only test_payload "Stored []" no_faults
      empty_service "[]" ReadError 10] ParseOrder_test_payload
  have c3: "int (length (Products test_order)) \<le> 10"
    by simp
  from c1 c2 c3 ParseOrder_test_payload show ?thesis
    by blast
qed

text \<open>
  Counterexample to C5 as stated: with a ceiling of one item, \<^verbatim>\<open>ParseOrder\<close> refuses the
  payload with two items, and the consumer takes the same payload: after the turn of the
  loop the order with its two items is in the cache and its rows are in the store.
\<close>

theorem consume_without_ceiling_counterexample:
  "ParseOrder strict_only two_items_payload 1 = Inl TooManyProducts \<and>
   length (Products two_items_order) = 2 \<and>
   StartListening strict_only empty_service [(Message two_items_payload, Stored [], no_faults)]
     = consume strict_only (Stored []) no_faults empty_service (Message two_items_payload) \<and>
   cache_Get
       (cache (consume strict_only (Stored []) no_faults empty_service (Message two_items_payload)))
       ''big''
     = Some two_items_order \<and>
   orders (rows (db (consume strict_only (Stored []) no_faults empty_service
       (Message two_items_payload))))
     = [order_row_of two_items_order 1] \<and>
   items (rows (db (consume strict_only (Stored []) no_faults empty_service
       (Message two_items_payload))))
     = Products two_items_order"
proof -
  have "consume strict_only (Stored []) no_faults empty_service (Message two_items_payload)
     = fst (AddOrder (Stored []) no_faults empty_service two_items_order)"
    by (simp add: consume_def decodeOrder_def Decode_two_items_payload)
  moreover have "length (Products two_items_order) = 2"
    by (simp add: two_items_order_def)
  ultimately show ?thesis
    by (simp add: AddOrder_two_items_order ParseOrder_two_items_payload cache_Get_def)
qed

end
